theory Spec2Isabelle
  imports Complex_Main "HOL-Library.AList"
begin

section \<open>Values, exceptions and library functions\<close>

text \<open>
  The service reads cells of provider tables, which Python types as \<open>Any\<close>. The code
  looks at such a value in five ways only: \<open>value is None\<close>, \<open>value == ''\<close>,
  \<open>str(value)\<close>, its truth value, and whether it is a \<open>str\<close>. A value is therefore
  \<open>None\<close>, a string, or some other object given by its \<open>str()\<close> form and its truth
  value.

  A Python \<open>str\<close> is a sequence of Unicode code points, and \<open>len\<close> counts code points:
  a string is the list of its code points, a code point being a natural number.
  \<open>ord\<close> is the code point of an ASCII character and \<open>ustr\<close> writes a string of ASCII
  characters as a literal; the provider's column names, which are Chinese, are
  given by their code points.
\<close>

type_synonym codepoint = nat

type_synonym pystr = "codepoint list"

definition ord :: "char \<Rightarrow> codepoint" where
  "ord c = of_char c"

definition ustr :: "string \<Rightarrow> pystr" where
  "ustr s = map ord s"

datatype pyval = PyNone | PyStr pystr | PyObj pystr bool

fun str :: "pyval \<Rightarrow> pystr" where
  "str PyNone = ustr ''None''"
| "str (PyStr s) = s"
| "str (PyObj s b) = s"

fun truthy :: "pyval \<Rightarrow> bool" where
  "truthy PyNone = False"
| "truthy (PyStr s) = (s \<noteq> [])"
| "truthy (PyObj s b) = b"

text \<open>
  A Python \<open>float\<close> is a finite number, an infinity or a NaN. \<open>int(x)\<close> truncates a
  finite float towards zero, raises \<open>OverflowError\<close> on an infinity and \<open>ValueError\<close>
  on a NaN.
\<close>

datatype pyfloat = Finite rat | PosInf | NegInf | NaN

datatype exn =
    StockNotFoundError
  | StockDataError
  | ValueError
  | TypeError
  | OverflowError
  | KeyError
  | ValidationError
  | ProviderError
  | HTTPException nat

fun int_of_float :: "pyfloat \<Rightarrow> exn + int" where
  "int_of_float (Finite q) = Inr (if 0 \<le> q then \<lfloor>q\<rfloor> else \<lceil>q\<rceil>)"
| "int_of_float PosInf = Inl OverflowError"
| "int_of_float NegInf = Inl OverflowError"
| "int_of_float NaN = Inl ValueError"

text \<open>
  The functions of Python and pandas that compute with floating-point numbers are
  parameters of the model: \<open>py_float\<close> is \<open>float(s)\<close> on a string (\<open>None\<close> when it
  raises \<open>ValueError\<close>), \<open>to_numeric\<close> is \<open>pd.to_numeric(col, errors='coerce')\<close>,
  \<open>rolling_mean_last n\<close> is \<open>col.rolling(window=n).mean().iloc[-1]\<close>, and
  \<open>series_max\<close>, \<open>series_min\<close> are \<open>col.max()\<close> and \<open>col.min()\<close>.

  Which characters count as digits is a matter of the Unicode character database
  that the interpreter and the pattern engine carry, and differs between their
  versions, so the two classes are parameters as well. \<open>chr_isdigit c\<close> says that
  \<open>str.isdigit\<close> holds of the character \<open>c\<close>: these are the characters of numeric
  type Decimal or Digit, that is \<open>0\<close> to \<open>9\<close>, the decimal digits of the other scripts
  (Arabic-Indic, Devanagari, fullwidth and so on) and digit-like characters such as
  the superscript digits. \<open>re_digit c\<close> says that the class \<open>\d\<close> of a pattern matches
  \<open>c\<close>: these are the characters of category Nd, the decimal digits of all scripts.
  \<open>re_dollar_newline\<close> says whether \<open>$\<close> in a pattern matches, besides the end of the
  text, also just before a line feed that ends the text: it does in Python's \<open>re\<close>
  module, and it does not in the engine of pydantic 2.
\<close>

record pylib =
  py_float :: "pystr \<Rightarrow> pyfloat option"
  to_numeric :: "pyval list \<Rightarrow> pyfloat list"
  rolling_mean_last :: "nat \<Rightarrow> pyfloat list \<Rightarrow> pyfloat"
  series_max :: "pyfloat list \<Rightarrow> pyfloat"
  series_min :: "pyfloat list \<Rightarrow> pyfloat"
  chr_isdigit :: "codepoint \<Rightarrow> bool"
  re_digit :: "codepoint \<Rightarrow> bool"
  re_dollar_newline :: bool

text \<open>
  \<open>isspace c\<close> says that \<open>c\<close> is whitespace for \<open>str.strip()\<close>: the characters of which
  \<open>str.isspace\<close> holds.
\<close>

definition isspace :: "codepoint \<Rightarrow> bool" where
  "isspace c = (c \<in> set [0x09, 0x0A, 0x0B, 0x0C, 0x0D, 0x1C, 0x1D, 0x1E, 0x1F, 0x20, 0x85, 0xA0,
                         0x1680, 0x2000, 0x2001, 0x2002, 0x2003, 0x2004, 0x2005, 0x2006, 0x2007,
                         0x2008, 0x2009, 0x200A, 0x2028, 0x2029, 0x202F, 0x205F, 0x3000])"

definition strip :: "pystr \<Rightarrow> pystr" where
  "strip s = rev (dropWhile isspace (rev (dropWhile isspace s)))"

definition replace_char :: "codepoint \<Rightarrow> pystr \<Rightarrow> pystr" where
  "replace_char c s = filter (\<lambda>x. x \<noteq> c) s"

text \<open>\<open>bindE\<close> sequences two steps of which the first may raise.\<close>

definition bindE :: "exn + 'a \<Rightarrow> ('a \<Rightarrow> exn + 'b) \<Rightarrow> exn + 'b" where
  "bindE m f = (case m of Inl e \<Rightarrow> Inl e | Inr x \<Rightarrow> f x)"

section \<open>Settings\<close>

record Settings =
  CACHE_TTL :: int
  MAX_CACHE_SIZE :: int

definition settings :: Settings where
  "settings = \<lparr>CACHE_TTL = 300, MAX_CACHE_SIZE = 1000\<rparr>"

section \<open>Value coercion\<close>

text \<open>
  \<open>_safe_get_float\<close> and \<open>_safe_get_int\<close>: the body of the \<open>try\<close> first, then the
  \<open>except (ValueError, TypeError)\<close> clause, which returns the default for these two
  exceptions and lets every other one through.
\<close>

definition safe_get_float_body :: "pylib \<Rightarrow> pyval \<Rightarrow> pyfloat option \<Rightarrow> exn + pyfloat option" where
  "safe_get_float_body lib v dflt =
     (if v = PyNone \<or> v = PyStr [] \<or> strip (str v) = ustr ''-'' then Inr dflt
      else (case py_float lib (replace_char (ord CHR ''%'') (replace_char (ord CHR '','') (str v))) of
              None \<Rightarrow> Inl ValueError
            | Some x \<Rightarrow> Inr (Some x)))"

definition except_value_type :: "exn + 'a \<Rightarrow> 'a \<Rightarrow> exn + 'a" where
  "except_value_type r dflt =
     (case r of
        Inl e \<Rightarrow> (if e = ValueError \<or> e = TypeError then Inr dflt else Inl e)
      | Inr x \<Rightarrow> Inr x)"

definition safe_get_float :: "pylib \<Rightarrow> pyval \<Rightarrow> pyfloat option \<Rightarrow> exn + pyfloat option" where
  "safe_get_float lib v dflt = except_value_type (safe_get_float_body lib v dflt) dflt"

definition safe_get_int_body :: "pylib \<Rightarrow> pyval \<Rightarrow> int option \<Rightarrow> exn + int option" where
  "safe_get_int_body lib v dflt =
     (if v = PyNone \<or> v = PyStr [] \<or> strip (str v) = ustr ''-'' then Inr dflt
      else (case py_float lib (replace_char (ord CHR '','') (str v)) of
              None \<Rightarrow> Inl ValueError
            | Some x \<Rightarrow> bindE (int_of_float x) (\<lambda>n. Inr (Some n))))"

definition safe_get_int :: "pylib \<Rightarrow> pyval \<Rightarrow> int option \<Rightarrow> exn + int option" where
  "safe_get_int lib v dflt = except_value_type (safe_get_int_body lib v dflt) dflt"

section \<open>Data models\<close>

text \<open>
  The four analysis sections are the pydantic models of \<open>stock_models.py\<close>: every field
  is optional and defaults to \<open>None\<close>. The \<open>_default\<close> constants are the models built
  with no argument, \<open>FundamentalAnalysis()\<close> and so on.
\<close>

record FundamentalAnalysis =
  market_cap :: "pyfloat option"
  circulating_market_cap :: "pyfloat option"
  total_shares :: "pyfloat option"
  circulating_shares :: "pyfloat option"
  revenue_ttm :: "pyfloat option"
  net_profit_ttm :: "pyfloat option"
  gross_profit_margin :: "pyfloat option"
  net_profit_margin :: "pyfloat option"
  roe :: "pyfloat option"
  roa :: "pyfloat option"
  debt_to_equity_ratio :: "pyfloat option"
  current_ratio :: "pyfloat option"
  quick_ratio :: "pyfloat option"
  cash_ratio :: "pyfloat option"
  revenue_growth_yoy :: "pyfloat option"
  net_profit_growth_yoy :: "pyfloat option"
  inventory_turnover :: "pyfloat option"
  accounts_receivable_turnover :: "pyfloat option"
  total_asset_turnover :: "pyfloat option"

definition FundamentalAnalysis_default :: FundamentalAnalysis where
  "FundamentalAnalysis_default = \<lparr>
     market_cap = None,
     circulating_market_cap = None,
     total_shares = None,
     circulating_shares = None,
     revenue_ttm = None,
     net_profit_ttm = None,
     gross_profit_margin = None,
     net_profit_margin = None,
     roe = None,
     roa = None,
     debt_to_equity_ratio = None,
     current_ratio = None,
     quick_ratio = None,
     cash_ratio = None,
     revenue_growth_yoy = None,
     net_profit_growth_yoy = None,
     inventory_turnover = None,
     accounts_receivable_turnover = None,
     total_asset_turnover = None\<rparr>"

record ValuationAnalysis =
  pe_ratio_static :: "pyfloat option"
  pe_ratio_dynamic :: "pyfloat option"
  pe_ratio_ttm :: "pyfloat option"
  pb_ratio :: "pyfloat option"
  ps_ratio :: "pyfloat option"
  ev_ebitda :: "pyfloat option"
  peg_ratio :: "pyfloat option"
  dividend_yield :: "pyfloat option"
  industry_pe_median :: "pyfloat option"
  industry_pb_median :: "pyfloat option"
  pe_percentile_1y :: "pyfloat option"
  pb_percentile_1y :: "pyfloat option"

definition ValuationAnalysis_default :: ValuationAnalysis where
  "ValuationAnalysis_default = \<lparr>
     pe_ratio_static = None,
     pe_ratio_dynamic = None,
     pe_ratio_ttm = None,
     pb_ratio = None,
     ps_ratio = None,
     ev_ebitda = None,
     peg_ratio = None,
     dividend_yield = None,
     industry_pe_median = None,
     industry_pb_median = None,
     pe_percentile_1y = None,
     pb_percentile_1y = None\<rparr>"

record TechnicalAnalysis =
  current_price :: "pyfloat option"
  price_change :: "pyfloat option"
  price_change_percent :: "pyfloat option"
  volume :: "pyfloat option"
  turnover :: "pyfloat option"
  turnover_rate :: "pyfloat option"
  day_high :: "pyfloat option"
  day_low :: "pyfloat option"
  week_52_high :: "pyfloat option"
  week_52_low :: "pyfloat option"
  ma_5 :: "pyfloat option"
  ma_10 :: "pyfloat option"
  ma_20 :: "pyfloat option"
  ma_60 :: "pyfloat option"
  rsi_6 :: "pyfloat option"
  rsi_12 :: "pyfloat option"
  rsi_24 :: "pyfloat option"
  macd_dif :: "pyfloat option"
  macd_dea :: "pyfloat option"
  macd_histogram :: "pyfloat option"
  boll_upper :: "pyfloat option"
  boll_middle :: "pyfloat option"
  boll_lower :: "pyfloat option"

definition TechnicalAnalysis_default :: TechnicalAnalysis where
  "TechnicalAnalysis_default = \<lparr>
     current_price = None,
     price_change = None,
     price_change_percent = None,
     volume = None,
     turnover = None,
     turnover_rate = None,
     day_high = None,
     day_low = None,
     week_52_high = None,
     week_52_low = None,
     ma_5 = None,
     ma_10 = None,
     ma_20 = None,
     ma_60 = None,
     rsi_6 = None,
     rsi_12 = None,
     rsi_24 = None,
     macd_dif = None,
     macd_dea = None,
     macd_histogram = None,
     boll_upper = None,
     boll_middle = None,
     boll_lower = None\<rparr>"

record SentimentAnalysis =
  main_net_inflow :: "pyfloat option"
  super_large_net_inflow :: "pyfloat option"
  large_net_inflow :: "pyfloat option"
  medium_net_inflow :: "pyfloat option"
  small_net_inflow :: "pyfloat option"
  northbound_net_inflow :: "pyfloat option"
  margin_trading_balance :: "pyfloat option"
  short_selling_balance :: "pyfloat option"
  institutional_holdings_ratio :: "pyfloat option"
  analyst_rating_avg :: "pyfloat option"
  analyst_target_price :: "pyfloat option"
  analyst_coverage_count :: "int option"
  news_sentiment_score :: "pyfloat option"
  news_count_7d :: "int option"
  concept_labels :: "pystr list option"
  industry_label :: "pystr option"

definition SentimentAnalysis_default :: SentimentAnalysis where
  "SentimentAnalysis_default = \<lparr>
     main_net_inflow = None,
     super_large_net_inflow = None,
     large_net_inflow = None,
     medium_net_inflow = None,
     small_net_inflow = None,
     northbound_net_inflow = None,
     margin_trading_balance = None,
     short_selling_balance = None,
     institutional_holdings_ratio = None,
     analyst_rating_avg = None,
     analyst_target_price = None,
     analyst_coverage_count = None,
     news_sentiment_score = None,
     news_count_7d = None,
     concept_labels = None,
     industry_label = None\<rparr>"
text \<open>
  A point in time (\<open>datetime\<close>) is a number of microseconds. The difference of two
  is a \<open>timedelta\<close>, which Python normalises into days, seconds (from 0 to 86399) and
  microseconds; \<open>timedelta_seconds\<close> is its \<open>.seconds\<close> attribute.
\<close>

type_synonym datetime = int

definition timedelta_seconds :: "int \<Rightarrow> int" where
  "timedelta_seconds d = (d mod 86400000000) div 1000000"

record StockReport =
  code :: pystr
  name :: pystr
  update_time :: datetime
  fundamental_analysis :: FundamentalAnalysis
  valuation_analysis :: ValuationAnalysis
  technical_analysis :: TechnicalAnalysis
  sentiment_analysis :: SentimentAnalysis

text \<open>
  \<open>isdigit\<close> is \<open>str.isdigit\<close>: the string is not empty and all its characters are
  digits.
\<close>

definition isdigit :: "pylib \<Rightarrow> pystr \<Rightarrow> bool" where
  "isdigit lib s = (s \<noteq> [] \<and> list_all (chr_isdigit lib) s)"

text \<open>
  \<open>validate_stock_code\<close> is the validator of \<open>StockReport.code\<close>; \<open>new_StockReport\<close> is
  the constructor call of \<open>get_full_stock_report\<close>: the name has to be a \<open>str\<close> and
  the code has to pass its validator, or pydantic raises \<open>ValidationError\<close>.
\<close>

definition validate_stock_code :: "pylib \<Rightarrow> pystr \<Rightarrow> exn + pystr" where
  "validate_stock_code lib v =
     (if v = [] \<or> length v \<noteq> 6 \<or> \<not> isdigit lib v then Inl ValueError else Inr v)"

definition new_StockReport ::
  "pylib \<Rightarrow> pystr \<Rightarrow> pyval \<Rightarrow> datetime \<Rightarrow> FundamentalAnalysis \<Rightarrow> ValuationAnalysis \<Rightarrow>
   TechnicalAnalysis \<Rightarrow> SentimentAnalysis \<Rightarrow> exn + StockReport" where
  "new_StockReport lib c nm t fa va ta sa =
     (case validate_stock_code lib c of
        Inl e \<Rightarrow> Inl ValidationError
      | Inr c' \<Rightarrow>
          (case nm of
             PyStr n \<Rightarrow> Inr \<lparr>code = c', name = n, update_time = t,
                               fundamental_analysis = fa, valuation_analysis = va,
                               technical_analysis = ta, sentiment_analysis = sa\<rparr>
           | _ \<Rightarrow> Inl ValidationError))"

section \<open>The data provider\<close>

text \<open>
  A pandas \<open>DataFrame\<close> is its column names and its rows, a row being the cells in the
  order of the columns. A row (a \<open>Series\<close>) is read by column name.
\<close>

record dataframe =
  columns :: "pystr list"
  rows :: "pyval list list"

definition df_empty :: "dataframe \<Rightarrow> bool" where
  "df_empty df = (columns df = [] \<or> rows df = [])"

definition series_item :: "pystr list \<Rightarrow> pyval list \<Rightarrow> pystr \<Rightarrow> exn + pyval" where
  \<comment> \<open>\<open>row[key]\<close>\<close>
  "series_item cols cells k =
     (case map_of (zip cols cells) k of None \<Rightarrow> Inl KeyError | Some v \<Rightarrow> Inr v)"

definition series_get :: "pystr list \<Rightarrow> pyval list \<Rightarrow> pystr \<Rightarrow> pyval" where
  \<comment> \<open>\<open>row.get(key)\<close>\<close>
  "series_get cols cells k =
     (case map_of (zip cols cells) k of None \<Rightarrow> PyNone | Some v \<Rightarrow> v)"

definition df_column :: "dataframe \<Rightarrow> pystr \<Rightarrow> exn + pyval list" where
  \<comment> \<open>\<open>df[key]\<close>\<close>
  "df_column df k =
     (if k \<in> set (columns df) then Inr (map (\<lambda>r. series_get (columns df) r k) (rows df))
      else Inl KeyError)"

definition df_where_eq :: "dataframe \<Rightarrow> pystr \<Rightarrow> pyval \<Rightarrow> exn + dataframe" where
  \<comment> \<open>\<open>df[df[key] == v]\<close>\<close>
  "df_where_eq df k v =
     (if k \<in> set (columns df)
      then Inr (df\<lparr>rows := filter (\<lambda>r. series_get (columns df) r k = v) (rows df)\<rparr>)
      else Inl KeyError)"

text \<open>
  The column names and arguments the service uses. They are Chinese words (with a
  hyphen and \<open>TTM\<close> in some), given here by their code points.
\<close>

definition key_stock_name :: pystr where
  "key_stock_name = [0x80A1, 0x7968, 0x7B80, 0x79F0]"

definition key_total_market_cap :: pystr where
  "key_total_market_cap = [0x603B, 0x5E02, 0x503C]"

definition key_circulating_market_cap :: pystr where
  "key_circulating_market_cap = [0x6D41, 0x901A, 0x5E02, 0x503C]"

definition key_total_shares :: pystr where
  "key_total_shares = [0x603B, 0x80A1, 0x672C]"

definition key_circulating_shares :: pystr where
  "key_circulating_shares = [0x6D41, 0x901A, 0x80A1]"

definition key_pe_static :: pystr where
  "key_pe_static = [0x5E02, 0x76C8, 0x7387, 0x002D, 0x9759, 0x6001]"

definition key_pe_dynamic :: pystr where
  "key_pe_dynamic = [0x5E02, 0x76C8, 0x7387, 0x002D, 0x52A8, 0x6001]"

definition key_pe_ttm :: pystr where
  "key_pe_ttm = [0x5E02, 0x76C8, 0x7387, 0x0054, 0x0054, 0x004D]"

definition key_pb :: pystr where
  "key_pb = [0x5E02, 0x51C0, 0x7387]"

definition key_ps :: pystr where
  "key_ps = [0x5E02, 0x9500, 0x7387]"

definition key_dividend_yield :: pystr where
  "key_dividend_yield = [0x80A1, 0x606F, 0x7387]"

definition key_revenue :: pystr where
  "key_revenue = [0x8425, 0x4E1A, 0x6536, 0x5165]"

definition key_net_profit :: pystr where
  "key_net_profit = [0x51C0, 0x5229, 0x6DA6]"

definition key_gross_margin :: pystr where
  "key_gross_margin = [0x6BDB, 0x5229, 0x7387]"

definition key_net_margin :: pystr where
  "key_net_margin = [0x51C0, 0x5229, 0x7387]"

definition key_roe :: pystr where
  "key_roe = [0x51C0, 0x8D44, 0x4EA7, 0x6536, 0x76CA, 0x7387]"

definition key_roa :: pystr where
  "key_roa = [0x603B, 0x8D44, 0x4EA7, 0x6536, 0x76CA, 0x7387]"

definition key_debt_ratio :: pystr where
  "key_debt_ratio = [0x8D44, 0x4EA7, 0x8D1F, 0x503A, 0x6BD4, 0x7387]"

definition key_current_ratio :: pystr where
  "key_current_ratio = [0x6D41, 0x52A8, 0x6BD4, 0x7387]"

definition key_quick_ratio :: pystr where
  "key_quick_ratio = [0x901F, 0x52A8, 0x6BD4, 0x7387]"

definition key_code :: pystr where
  "key_code = [0x4EE3, 0x7801]"

definition key_latest_price :: pystr where
  "key_latest_price = [0x6700, 0x65B0, 0x4EF7]"

definition key_change_amount :: pystr where
  "key_change_amount = [0x6DA8, 0x8DCC, 0x989D]"

definition key_change_percent :: pystr where
  "key_change_percent = [0x6DA8, 0x8DCC, 0x5E45]"

definition key_volume :: pystr where
  "key_volume = [0x6210, 0x4EA4, 0x91CF]"

definition key_turnover :: pystr where
  "key_turnover = [0x6210, 0x4EA4, 0x989D]"

definition key_turnover_rate :: pystr where
  "key_turnover_rate = [0x6362, 0x624B, 0x7387]"

definition key_high :: pystr where
  "key_high = [0x6700, 0x9AD8]"

definition key_low :: pystr where
  "key_low = [0x6700, 0x4F4E]"

definition key_close :: pystr where
  "key_close = [0x6536, 0x76D8]"

definition key_main_net :: pystr where
  "key_main_net = [0x4E3B, 0x529B, 0x51C0, 0x6D41, 0x5165, 0x002D, 0x51C0, 0x989D]"

definition key_super_large_net :: pystr where
  "key_super_large_net = [0x8D85, 0x5927, 0x5355, 0x51C0, 0x6D41, 0x5165, 0x002D, 0x51C0, 0x989D]"

definition key_large_net :: pystr where
  "key_large_net = [0x5927, 0x5355, 0x51C0, 0x6D41, 0x5165, 0x002D, 0x51C0, 0x989D]"

definition key_medium_net :: pystr where
  "key_medium_net = [0x4E2D, 0x5355, 0x51C0, 0x6D41, 0x5165, 0x002D, 0x51C0, 0x989D]"

definition key_small_net :: pystr where
  "key_small_net = [0x5C0F, 0x5355, 0x51C0, 0x6D41, 0x5165, 0x002D, 0x51C0, 0x989D]"

definition key_board_name :: pystr where
  "key_board_name = [0x677F, 0x5757, 0x540D, 0x79F0]"

definition key_eastmoney :: pystr where
  "key_eastmoney = [0x4E1C, 0x65B9, 0x8D22, 0x5BCC]"

text \<open>
  The calls the service makes to the provider (akshare). A \<open>provider\<close> is the provider
  as it answers during one request: each call raises or returns a table.
\<close>

datatype provider_call =
    Stock_individual_info_em pystr
  | Stock_financial_analysis_indicator pystr
  | Stock_zh_a_spot_em
  | Stock_zh_a_hist pystr
  | Stock_individual_fund_flow pystr pystr
  | Stock_board_concept_cons_em pystr

type_synonym provider = "provider_call \<Rightarrow> exn + dataframe"

section \<open>The stock service\<close>

text \<open>
  The state of a \<open>StockService\<close>: the report cache \<open>_cache\<close>, a dictionary from cache
  key to (report, fetch time), kept as an association list in insertion order;
  \<open>_last_clear_cache\<close>; and the memo table that \<open>lru_cache\<close> keeps for
  \<open>_get_stock_info\<close>, most recently used entry first. \<open>provider_calls\<close> is not a field
  of the class: it records every call made to the provider, in order.
\<close>

type_synonym info_dict = "(pyval \<times> pyval) list"

record StockService =
  cache :: "(pystr \<times> (StockReport \<times> datetime)) list"
  last_clear_cache :: datetime
  info_lru :: "(pystr \<times> info_dict) list"
  provider_calls :: "provider_call list"

definition init_StockService :: "datetime \<Rightarrow> StockService" where
  "init_StockService now =
     \<lparr>cache = [], last_clear_cache = now, info_lru = [], provider_calls = []\<rparr>"

definition get_cache_key :: "pystr \<Rightarrow> pystr" where
  "get_cache_key stock_code = ustr ''stock_'' @ stock_code"

definition is_cache_expired :: "Settings \<Rightarrow> datetime \<Rightarrow> datetime \<Rightarrow> bool" where
  "is_cache_expired cfg now cache_time =
     (timedelta_seconds (now - cache_time) > CACHE_TTL cfg)"

definition clear_expired_cache :: "Settings \<Rightarrow> datetime \<Rightarrow> StockService \<Rightarrow> StockService" where
  "clear_expired_cache cfg now s =
     (if timedelta_seconds (now - last_clear_cache s) > CACHE_TTL cfg
      then (let expired_keys =
                  map fst (filter (\<lambda>(key, (data, cache_time)). is_cache_expired cfg now cache_time)
                                  (cache s))
            in s\<lparr>cache := foldl (\<lambda>c key. AList.delete key c) (cache s) expired_keys,
                 last_clear_cache := now\<rparr>)
      else s)"

subsection \<open>Basic information\<close>

definition dict_get :: "info_dict \<Rightarrow> pystr \<Rightarrow> pyval \<Rightarrow> pyval" where
  \<comment> \<open>\<open>d.get(key, default)\<close>\<close>
  "dict_get d k dflt = (case map_of d (PyStr k) of None \<Rightarrow> dflt | Some v \<Rightarrow> v)"

fun info_rows :: "pystr list \<Rightarrow> pyval list list \<Rightarrow> info_dict \<Rightarrow> exn + info_dict" where
  "info_rows cols [] d = Inr d"
| "info_rows cols (r # rs) d =
     bindE (series_item cols r (ustr ''value'')) (\<lambda>v.
     bindE (series_item cols r (ustr ''item'')) (\<lambda>k.
       info_rows cols rs (AList.update k v d)))"

text \<open>
  The body of the \<open>try\<close> in \<open>_get_stock_info\<close>, and the function itself without its
  \<open>lru_cache\<close>: the clause \<open>except Exception\<close> turns every exception of the body,
  \<open>StockNotFoundError\<close> included, into \<open>StockDataError\<close>.
\<close>

definition get_stock_info_body :: "provider \<Rightarrow> pystr \<Rightarrow> exn + info_dict" where
  "get_stock_info_body w stock_code =
     bindE (w (Stock_individual_info_em stock_code)) (\<lambda>stock_info.
       if df_empty stock_info then Inl StockNotFoundError
       else info_rows (columns stock_info) (rows stock_info) [])"

definition get_stock_info_uncached :: "provider \<Rightarrow> pystr \<Rightarrow> exn + info_dict" where
  "get_stock_info_uncached w stock_code =
     (case get_stock_info_body w stock_code of
        Inl e \<Rightarrow> Inl StockDataError
      | Inr d \<Rightarrow> Inr d)"

text \<open>
  \<open>lru_cache(maxsize=MAX_CACHE_SIZE)\<close>: a hit returns the stored dictionary, calls
  nothing and makes the entry the most recent one; a miss runs the function and
  stores its result, dropping the least recent entry when the table is full; an
  exception is not stored. The result is the value or exception, the new table and
  the provider calls made.
\<close>

definition get_stock_info ::
  "Settings \<Rightarrow> provider \<Rightarrow> (pystr \<times> info_dict) list \<Rightarrow> pystr \<Rightarrow>
   (exn + info_dict) \<times> (pystr \<times> info_dict) list \<times> provider_call list" where
  "get_stock_info cfg w lru stock_code =
     (case map_of lru stock_code of
        Some d \<Rightarrow> (Inr d, (stock_code, d) # AList.delete stock_code lru, [])
      | None \<Rightarrow>
          (case get_stock_info_uncached w stock_code of
             Inl e \<Rightarrow> (Inl e, lru, [Stock_individual_info_em stock_code])
           | Inr d \<Rightarrow> (Inr d, take (nat (MAX_CACHE_SIZE cfg)) ((stock_code, d) # lru),
                        [Stock_individual_info_em stock_code])))"

subsection \<open>The four sections\<close>

text \<open>
  \<open>assign_floats\<close> runs a sequence of assignments \<open>data[field] = _safe_get_float(v)\<close>
  on the model under construction; it stops at the first exception and keeps what
  was assigned before.
\<close>

fun assign_floats ::
  "pylib \<Rightarrow> ((pyfloat option \<Rightarrow> 'a \<Rightarrow> 'a) \<times> pyval) list \<Rightarrow> 'a \<Rightarrow> 'a \<times> exn option" where
  "assign_floats lib [] d = (d, None)"
| "assign_floats lib ((upd, v) # rest) d =
     (case safe_get_float lib v None of
        Inl e \<Rightarrow> (d, Some e)
      | Inr x \<Rightarrow> assign_floats lib rest (upd x d))"

definition raise_or_return :: "'a \<times> exn option \<Rightarrow> exn + 'a" where
  "raise_or_return r = (case r of (d, Some e) \<Rightarrow> Inl e | (d, None) \<Rightarrow> Inr d)"

definition fundamental_build :: "pylib \<Rightarrow> info_dict \<Rightarrow> dataframe \<Rightarrow> exn + FundamentalAnalysis" where
  "fundamental_build lib stock_info financial_analysis =
     bindE (raise_or_return (assign_floats lib
        [(\<lambda>x d. d\<lparr>market_cap := x\<rparr>, dict_get stock_info key_total_market_cap PyNone),
         (\<lambda>x d. d\<lparr>circulating_market_cap := x\<rparr>, dict_get stock_info key_circulating_market_cap PyNone),
         (\<lambda>x d. d\<lparr>total_shares := x\<rparr>, dict_get stock_info key_total_shares PyNone),
         (\<lambda>x d. d\<lparr>circulating_shares := x\<rparr>, dict_get stock_info key_circulating_shares PyNone)]
        FundamentalAnalysis_default)) (\<lambda>d.
     if \<not> df_empty financial_analysis
     then (let cols = columns financial_analysis; latest_data = last (rows financial_analysis)
           in raise_or_return (assign_floats lib
                [(\<lambda>x d. d\<lparr>revenue_ttm := x\<rparr>, series_get cols latest_data key_revenue),
                 (\<lambda>x d. d\<lparr>net_profit_ttm := x\<rparr>, series_get cols latest_data key_net_profit),
                 (\<lambda>x d. d\<lparr>gross_profit_margin := x\<rparr>, series_get cols latest_data key_gross_margin),
                 (\<lambda>x d. d\<lparr>net_profit_margin := x\<rparr>, series_get cols latest_data key_net_margin),
                 (\<lambda>x d. d\<lparr>roe := x\<rparr>, series_get cols latest_data key_roe),
                 (\<lambda>x d. d\<lparr>roa := x\<rparr>, series_get cols latest_data key_roa),
                 (\<lambda>x d. d\<lparr>debt_to_equity_ratio := x\<rparr>, series_get cols latest_data key_debt_ratio),
                 (\<lambda>x d. d\<lparr>current_ratio := x\<rparr>, series_get cols latest_data key_current_ratio),
                 (\<lambda>x d. d\<lparr>quick_ratio := x\<rparr>, series_get cols latest_data key_quick_ratio)]
                d))
     else Inr d)"

text \<open>
  Each \<open>_get_..._data\<close> is the body of its \<open>try\<close> (\<open>..._try\<close>) followed by the clause
  \<open>except Exception\<close>, which returns the model built with no argument. The result
  is what the coroutine hands to \<open>asyncio.gather\<close>, the new memo table and the
  provider calls made.
\<close>

definition fundamental_try ::
  "Settings \<Rightarrow> pylib \<Rightarrow> provider \<Rightarrow> (pystr \<times> info_dict) list \<Rightarrow> pystr \<Rightarrow>
   (exn + FundamentalAnalysis) \<times> (pystr \<times> info_dict) list \<times> provider_call list" where
  "fundamental_try cfg lib w lru stock_code =
     (case get_stock_info cfg w lru stock_code of
        (Inl e, lru', calls) \<Rightarrow> (Inl e, lru', calls)
      | (Inr stock_info, lru', calls) \<Rightarrow>
          (case w (Stock_financial_analysis_indicator stock_code) of
             Inl e \<Rightarrow> (Inl e, lru', calls @ [Stock_financial_analysis_indicator stock_code])
           | Inr financial_analysis \<Rightarrow>
               (fundamental_build lib stock_info financial_analysis, lru',
                calls @ [Stock_financial_analysis_indicator stock_code])))"

definition except_Exception :: "exn + 'a \<Rightarrow> 'a \<Rightarrow> exn + 'a" where
  "except_Exception r dflt = (case r of Inl e \<Rightarrow> Inr dflt | Inr x \<Rightarrow> Inr x)"

definition get_fundamental_data ::
  "Settings \<Rightarrow> pylib \<Rightarrow> provider \<Rightarrow> (pystr \<times> info_dict) list \<Rightarrow> pystr \<Rightarrow>
   (exn + FundamentalAnalysis) \<times> (pystr \<times> info_dict) list \<times> provider_call list" where
  "get_fundamental_data cfg lib w lru stock_code =
     (case fundamental_try cfg lib w lru stock_code of
        (r, lru', calls) \<Rightarrow> (except_Exception r FundamentalAnalysis_default, lru', calls))"

definition valuation_try ::
  "Settings \<Rightarrow> pylib \<Rightarrow> provider \<Rightarrow> (pystr \<times> info_dict) list \<Rightarrow> pystr \<Rightarrow>
   (exn + ValuationAnalysis) \<times> (pystr \<times> info_dict) list \<times> provider_call list" where
  "valuation_try cfg lib w lru stock_code =
     (case get_stock_info cfg w lru stock_code of
        (Inl e, lru', calls) \<Rightarrow> (Inl e, lru', calls)
      | (Inr stock_info, lru', calls) \<Rightarrow>
          (raise_or_return (assign_floats lib
             [(\<lambda>x d. d\<lparr>pe_ratio_static := x\<rparr>, dict_get stock_info key_pe_static PyNone),
              (\<lambda>x d. d\<lparr>pe_ratio_dynamic := x\<rparr>, dict_get stock_info key_pe_dynamic PyNone),
              (\<lambda>x d. d\<lparr>pe_ratio_ttm := x\<rparr>, dict_get stock_info key_pe_ttm PyNone),
              (\<lambda>x d. d\<lparr>pb_ratio := x\<rparr>, dict_get stock_info key_pb PyNone),
              (\<lambda>x d. d\<lparr>ps_ratio := x\<rparr>, dict_get stock_info key_ps PyNone),
              (\<lambda>x d. d\<lparr>dividend_yield := x\<rparr>, dict_get stock_info key_dividend_yield PyNone)]
             ValuationAnalysis_default), lru', calls))"

definition get_valuation_data ::
  "Settings \<Rightarrow> pylib \<Rightarrow> provider \<Rightarrow> (pystr \<times> info_dict) list \<Rightarrow> pystr \<Rightarrow>
   (exn + ValuationAnalysis) \<times> (pystr \<times> info_dict) list \<times> provider_call list" where
  "get_valuation_data cfg lib w lru stock_code =
     (case valuation_try cfg lib w lru stock_code of
        (r, lru', calls) \<Rightarrow> (except_Exception r ValuationAnalysis_default, lru', calls))"

definition technical_build :: "pylib \<Rightarrow> dataframe \<Rightarrow> dataframe \<Rightarrow> exn + TechnicalAnalysis" where
  "technical_build lib stock_current hist_data =
     bindE (if \<not> df_empty stock_current
            then (let cols = columns stock_current; current_row = hd (rows stock_current)
                  in raise_or_return (assign_floats lib
                       [(\<lambda>x d. d\<lparr>current_price := x\<rparr>, series_get cols current_row key_latest_price),
                        (\<lambda>x d. d\<lparr>price_change := x\<rparr>, series_get cols current_row key_change_amount),
                        (\<lambda>x d. d\<lparr>price_change_percent := x\<rparr>, series_get cols current_row key_change_percent),
                        (\<lambda>x d. d\<lparr>volume := x\<rparr>, series_get cols current_row key_volume),
                        (\<lambda>x d. d\<lparr>turnover := x\<rparr>, series_get cols current_row key_turnover),
                        (\<lambda>x d. d\<lparr>turnover_rate := x\<rparr>, series_get cols current_row key_turnover_rate),
                        (\<lambda>x d. d\<lparr>day_high := x\<rparr>, series_get cols current_row key_high),
                        (\<lambda>x d. d\<lparr>day_low := x\<rparr>, series_get cols current_row key_low)]
                       TechnicalAnalysis_default))
            else Inr TechnicalAnalysis_default) (\<lambda>d.
     if \<not> df_empty hist_data \<and> length (rows hist_data) \<ge> 60
     then bindE (df_column hist_data key_close) (\<lambda>col.
            let close = to_numeric lib col
            in Inr (d\<lparr>ma_5 := Some (rolling_mean_last lib 5 close),
                      ma_10 := Some (rolling_mean_last lib 10 close),
                      ma_20 := Some (rolling_mean_last lib 20 close),
                      ma_60 := Some (rolling_mean_last lib 60 close),
                      week_52_high := Some (series_max lib close),
                      week_52_low := Some (series_min lib close)\<rparr>))
     else Inr d)"

definition technical_try ::
  "pylib \<Rightarrow> provider \<Rightarrow> pystr \<Rightarrow> (exn + TechnicalAnalysis) \<times> provider_call list" where
  "technical_try lib w stock_code =
     (case w Stock_zh_a_spot_em of
        Inl e \<Rightarrow> (Inl e, [Stock_zh_a_spot_em])
      | Inr current_data \<Rightarrow>
          (case df_where_eq current_data key_code (PyStr stock_code) of
             Inl e \<Rightarrow> (Inl e, [Stock_zh_a_spot_em])
           | Inr stock_current \<Rightarrow>
               (case w (Stock_zh_a_hist stock_code) of
                  Inl e \<Rightarrow> (Inl e, [Stock_zh_a_spot_em, Stock_zh_a_hist stock_code])
                | Inr hist_data \<Rightarrow>
                    (technical_build lib stock_current hist_data,
                     [Stock_zh_a_spot_em, Stock_zh_a_hist stock_code]))))"

definition get_technical_data ::
  "pylib \<Rightarrow> provider \<Rightarrow> pystr \<Rightarrow> (exn + TechnicalAnalysis) \<times> provider_call list" where
  "get_technical_data lib w stock_code =
     (case technical_try lib w stock_code of
        (r, calls) \<Rightarrow> (except_Exception r TechnicalAnalysis_default, calls))"

text \<open>
  \<open>_get_sentiment_data\<close> has two inner \<open>try\<close> blocks. The first one fills the fund
  flow fields and ignores an exception (\<open>pass\<close>); the second one computes the concept
  labels and stores the empty list on an exception. The model is then built, where
  pydantic wants every label to be a \<open>str\<close>.
\<close>

definition fund_flow_market :: "pystr \<Rightarrow> pystr" where
  "fund_flow_market stock_code = (if take 1 stock_code = ustr ''6'' then ustr ''sh'' else ustr ''sz'')"

definition sentiment_flow :: "pylib \<Rightarrow> provider \<Rightarrow> pystr \<Rightarrow> SentimentAnalysis" where
  "sentiment_flow lib w stock_code =
     (case w (Stock_individual_fund_flow stock_code (fund_flow_market stock_code)) of
        Inl e \<Rightarrow> SentimentAnalysis_default
      | Inr flow_data \<Rightarrow>
          if \<not> df_empty flow_data
          then (let cols = columns flow_data; latest_flow = last (rows flow_data)
                in fst (assign_floats lib
                     [(\<lambda>x d. d\<lparr>main_net_inflow := x\<rparr>, series_get cols latest_flow key_main_net),
                      (\<lambda>x d. d\<lparr>super_large_net_inflow := x\<rparr>, series_get cols latest_flow key_super_large_net),
                      (\<lambda>x d. d\<lparr>large_net_inflow := x\<rparr>, series_get cols latest_flow key_large_net),
                      (\<lambda>x d. d\<lparr>medium_net_inflow := x\<rparr>, series_get cols latest_flow key_medium_net),
                      (\<lambda>x d. d\<lparr>small_net_inflow := x\<rparr>, series_get cols latest_flow key_small_net)]
                     SentimentAnalysis_default))
          else SentimentAnalysis_default)"

definition sentiment_concepts :: "provider \<Rightarrow> pystr \<Rightarrow> pyval list" where
  "sentiment_concepts w stock_code =
     (case bindE (w (Stock_board_concept_cons_em key_eastmoney)) (\<lambda>concept_data.
             if \<not> df_empty concept_data
             then bindE (df_where_eq concept_data key_code (PyStr stock_code)) (\<lambda>sel.
                    df_column sel key_board_name)
             else Inr []) of
        Inl e \<Rightarrow> []
      | Inr concepts \<Rightarrow> take 10 concepts)"

fun is_str :: "pyval \<Rightarrow> bool" where
  "is_str (PyStr s) = True"
| "is_str v = False"

definition validate_str_list :: "pyval list \<Rightarrow> exn + pystr list" where
  "validate_str_list vs = (if list_all is_str vs then Inr (map str vs) else Inl ValidationError)"

definition sentiment_try ::
  "pylib \<Rightarrow> provider \<Rightarrow> pystr \<Rightarrow> (exn + SentimentAnalysis) \<times> provider_call list" where
  "sentiment_try lib w stock_code =
     (bindE (validate_str_list (sentiment_concepts w stock_code)) (\<lambda>labels.
        Inr ((sentiment_flow lib w stock_code)\<lparr>concept_labels := Some labels\<rparr>)),
      [Stock_individual_fund_flow stock_code (fund_flow_market stock_code),
       Stock_board_concept_cons_em key_eastmoney])"

definition get_sentiment_data ::
  "pylib \<Rightarrow> provider \<Rightarrow> pystr \<Rightarrow> (exn + SentimentAnalysis) \<times> provider_call list" where
  "get_sentiment_data lib w stock_code =
     (case sentiment_try lib w stock_code of
        (r, calls) \<Rightarrow> (except_Exception r SentimentAnalysis_default, calls))"

subsection \<open>The full report\<close>

text \<open>
  A call of \<open>get_full_stock_report\<close> reads the clock several times (for the expiry
  check, the sweep, \<open>update_time\<close> and the fetch time of the new entry); the model
  takes these readings to be one, the time \<open>now\<close> of the call. Calls are served one
  after the other.

  \<open>report_try\<close> is the body of the \<open>try\<close> in \<open>get_full_stock_report\<close>. The four
  coroutines contain no \<open>await\<close>, so \<open>asyncio.gather\<close> runs them one after the other
  in the order given; a result that is an exception is replaced by the model built
  with no argument. The state changes made before an exception stay.
\<close>

definition gathered :: "exn + 'a \<Rightarrow> 'a \<Rightarrow> 'a" where
  "gathered r dflt = (case r of Inl e \<Rightarrow> dflt | Inr x \<Rightarrow> x)"

definition report_try ::
  "Settings \<Rightarrow> pylib \<Rightarrow> provider \<Rightarrow> datetime \<Rightarrow> StockService \<Rightarrow> pystr \<Rightarrow>
   (exn + StockReport) \<times> StockService" where
  "report_try cfg lib w now s stock_code =
     (case get_stock_info cfg w (info_lru s) stock_code of
        (Inl e, lru1, c1) \<Rightarrow>
          (Inl e, s\<lparr>info_lru := lru1, provider_calls := provider_calls s @ c1\<rparr>)
      | (Inr stock_info, lru1, c1) \<Rightarrow>
          (let stock_name = dict_get stock_info key_stock_name (PyStr [])
           in if \<not> truthy stock_name
              then (Inl StockNotFoundError,
                    s\<lparr>info_lru := lru1, provider_calls := provider_calls s @ c1\<rparr>)
              else
                (case get_fundamental_data cfg lib w lru1 stock_code of (r_f, lru2, c2) \<Rightarrow>
                 case get_valuation_data cfg lib w lru2 stock_code of (r_v, lru3, c3) \<Rightarrow>
                 case get_technical_data lib w stock_code of (r_t, c4) \<Rightarrow>
                 case get_sentiment_data lib w stock_code of (r_s, c5) \<Rightarrow>
                 (let s' = s\<lparr>info_lru := lru3,
                             provider_calls := provider_calls s @ c1 @ c2 @ c3 @ c4 @ c5\<rparr>
                  in case new_StockReport lib stock_code stock_name now
                            (gathered r_f FundamentalAnalysis_default)
                            (gathered r_v ValuationAnalysis_default)
                            (gathered r_t TechnicalAnalysis_default)
                            (gathered r_s SentimentAnalysis_default) of
                       Inl e \<Rightarrow> (Inl e, s')
                     | Inr report \<Rightarrow>
                         (Inr report,
                          if int (length (cache s')) < MAX_CACHE_SIZE cfg
                          then s'\<lparr>cache := AList.update (get_cache_key stock_code) (report, now)
                                               (cache s')\<rparr>
                          else s')))))"

text \<open>
  The \<open>except\<close> clauses of \<open>get_full_stock_report\<close>: \<open>StockNotFoundError\<close> is raised
  again, every other exception becomes \<open>StockDataError\<close>.
\<close>

definition report_except :: "exn \<Rightarrow> exn" where
  "report_except e = (if e = StockNotFoundError then StockNotFoundError else StockDataError)"

definition fetch_report ::
  "Settings \<Rightarrow> pylib \<Rightarrow> provider \<Rightarrow> datetime \<Rightarrow> StockService \<Rightarrow> pystr \<Rightarrow>
   (exn + StockReport) \<times> StockService" where
  "fetch_report cfg lib w now s stock_code =
     (case report_try cfg lib w now (clear_expired_cache cfg now s) stock_code of
        (Inl e, s') \<Rightarrow> (Inl (report_except e), s')
      | (Inr report, s') \<Rightarrow> (Inr report, s'))"

definition get_full_stock_report ::
  "Settings \<Rightarrow> pylib \<Rightarrow> provider \<Rightarrow> datetime \<Rightarrow> StockService \<Rightarrow> pystr \<Rightarrow>
   (exn + StockReport) \<times> StockService" where
  "get_full_stock_report cfg lib w now s stock_code =
     (case map_of (cache s) (get_cache_key stock_code) of
        Some (cached_data, cache_time) \<Rightarrow>
          if \<not> is_cache_expired cfg now cache_time then (Inr cached_data, s)
          else fetch_report cfg lib w now s stock_code
      | None \<Rightarrow> fetch_report cfg lib w now s stock_code)"

section \<open>The HTTP endpoint\<close>

text \<open>
  \<open>GET /api/v1/stock/full-report\<close>. FastAPI checks the query parameter \<open>code\<close> before
  the handler runs: a request without it, or with a value that the pattern
  \<open>^\d{6}$\<close> does not match, is answered with 422 and the handler is not called.

  The pattern is a sequence of three items: \<open>^\<close>, the start of the text; \<open>\d{6}\<close>, six
  characters of the class \<open>\d\<close>; and \<open>$\<close>, the end of the text or, with an engine
  that has \<open>re_dollar_newline\<close>, the position before a line feed that ends the text.
  \<open>re_match_at\<close> says that a sequence of items matches the text from position \<open>i\<close>
  on, \<open>re_search\<close> that it matches from some position, and \<open>query_regex\<close> is the check
  of the parameter.

  The handler then repeats the check with \<open>len\<close> and \<open>str.isdigit\<close> inside its \<open>try\<close>;
  its \<open>except\<close> clauses map \<open>StockNotFoundError\<close> to 404, \<open>StockDataError\<close> to 500,
  \<open>ValidationError\<close> to 400 and every other exception, the handler's own
  \<open>HTTPException\<close> included, to 500. No exception of the service leaves the handler,
  so the exception handlers registered on the application are not reached from
  this endpoint.
\<close>

datatype re_item = Re_start | Re_end | Re_digits nat

fun re_match_at :: "pylib \<Rightarrow> re_item list \<Rightarrow> pystr \<Rightarrow> nat \<Rightarrow> bool" where
  "re_match_at lib [] s i = True"
| "re_match_at lib (Re_start # p) s i = (i = 0 \<and> re_match_at lib p s i)"
| "re_match_at lib (Re_end # p) s i =
     ((i = length s \<or> (re_dollar_newline lib \<and> drop i s = [0x0A])) \<and> re_match_at lib p s i)"
| "re_match_at lib (Re_digits n # p) s i =
     (i + n \<le> length s \<and> list_all (re_digit lib) (take n (drop i s)) \<and>
      re_match_at lib p s (i + n))"

definition re_search :: "pylib \<Rightarrow> re_item list \<Rightarrow> pystr \<Rightarrow> bool" where
  "re_search lib p s = list_ex (re_match_at lib p s) [0..<Suc (length s)]"

definition query_regex :: "pylib \<Rightarrow> pystr \<Rightarrow> bool" where
  "query_regex lib s = re_search lib [Re_start, Re_digits 6, Re_end] s"

definition handler_try ::
  "Settings \<Rightarrow> pylib \<Rightarrow> provider \<Rightarrow> datetime \<Rightarrow> StockService \<Rightarrow> pystr \<Rightarrow>
   (exn + StockReport) \<times> StockService" where
  "handler_try cfg lib w now s c =
     (if c = [] \<or> length c \<noteq> 6 \<or> \<not> isdigit lib c then (Inl (HTTPException 400), s)
      else get_full_stock_report cfg lib w now s c)"

fun handler_except :: "exn \<Rightarrow> nat" where
  "handler_except StockNotFoundError = 404"
| "handler_except StockDataError = 500"
| "handler_except ValidationError = 400"
| "handler_except e = 500"

record Response =
  status_code :: nat
  body :: "StockReport option"

definition get_stock_full_report ::
  "Settings \<Rightarrow> pylib \<Rightarrow> provider \<Rightarrow> datetime \<Rightarrow> StockService \<Rightarrow> pystr option \<Rightarrow>
   Response \<times> StockService" where
  "get_stock_full_report cfg lib w now s query_code =
     (case query_code of
        None \<Rightarrow> (\<lparr>status_code = 422, body = None\<rparr>, s)
      | Some c \<Rightarrow>
          if \<not> query_regex lib c then (\<lparr>status_code = 422, body = None\<rparr>, s)
          else (case handler_try cfg lib w now s c of
                  (Inl e, s') \<Rightarrow> (\<lparr>status_code = handler_except e, body = None\<rparr>, s')
                | (Inr report, s') \<Rightarrow> (\<lparr>status_code = 200, body = Some report\<rparr>, s')))"

text \<open>A run of the service: requests (time, provider, ticker) served one after the other.\<close>

fun run_reports ::
  "Settings \<Rightarrow> pylib \<Rightarrow> StockService \<Rightarrow> (datetime \<times> provider \<times> pystr) list \<Rightarrow> StockService" where
  "run_reports cfg lib s [] = s"
| "run_reports cfg lib s ((now, w, stock_code) # rest) =
     run_reports cfg lib (snd (get_full_stock_report cfg lib w now s stock_code)) rest"

section \<open>Auxiliary notions and example data\<close>

text \<open>
  \<open>no_fresh_entry\<close> says that a request for the ticker is not answered from the cache:
  there is no entry for it, or the entry counts as expired.
\<close>

definition no_fresh_entry :: "Settings \<Rightarrow> datetime \<Rightarrow> StockService \<Rightarrow> pystr \<Rightarrow> bool" where
  "no_fresh_entry cfg now s stock_code =
     (case map_of (cache s) (get_cache_key stock_code) of
        None \<Rightarrow> True
      | Some (cached_data, cache_time) \<Rightarrow> is_cache_expired cfg now cache_time)"

text \<open>
  Example data for the concrete instances below: a library whose \<open>float\<close> reads two
  strings and which knows the decimal digits of three scripts (\<open>0\<close> to \<open>9\<close>, the
  Arabic-Indic digits U+0660 to U+0669 and the fullwidth digits U+FF10 to U+FF19)
  and, as further digits of \<open>str.isdigit\<close>, the superscript digits U+00B2, U+00B3 and
  U+00B9; a provider that knows the name of every ticker and fails on every other
  call, a provider that is down, and a provider that answers the basic-information
  call with an empty table.
\<close>

definition demo_decimal :: "codepoint \<Rightarrow> bool" where
  "demo_decimal c = ((0x30 \<le> c \<and> c \<le> 0x39) \<or> (0x660 \<le> c \<and> c \<le> 0x669) \<or>
                     (0xFF10 \<le> c \<and> c \<le> 0xFF19))"

definition demo_lib :: pylib where
  "demo_lib = \<lparr>py_float = (\<lambda>s. if s = ustr ''inf'' then Some PosInf
                                 else if s = ustr ''12.5'' then Some (Finite (25 / 2)) else None),
               to_numeric = map (\<lambda>v. NaN),
               rolling_mean_last = (\<lambda>n xs. NaN),
               series_max = (\<lambda>xs. NaN),
               series_min = (\<lambda>xs. NaN),
               chr_isdigit = (\<lambda>c. demo_decimal c \<or> c \<in> set [0xB2, 0xB3, 0xB9]),
               re_digit = demo_decimal,
               re_dollar_newline = False\<rparr>"

definition demo_info :: dataframe where
  "demo_info = \<lparr>columns = [ustr ''item'', ustr ''value''], rows = [[PyStr key_stock_name, PyStr (ustr ''Moutai'')]]\<rparr>"

definition demo_dict :: info_dict where
  "demo_dict = [(PyStr key_stock_name, PyStr (ustr ''Moutai''))]"

definition provider_info_only :: provider where
  "provider_info_only call =
     (case call of Stock_individual_info_em c \<Rightarrow> Inr demo_info | _ \<Rightarrow> Inl ProviderError)"

definition provider_down :: provider where
  "provider_down call = Inl ProviderError"

definition empty_info :: dataframe where
  "empty_info = \<lparr>columns = [ustr ''item'', ustr ''value''], rows = []\<rparr>"

definition provider_unknown :: provider where
  "provider_unknown call =
     (case call of Stock_individual_info_em c \<Rightarrow> Inr empty_info | _ \<Rightarrow> Inl ProviderError)"

definition demo_calls :: "pystr \<Rightarrow> provider_call list" where
  "demo_calls c = [Stock_financial_analysis_indicator c, Stock_zh_a_spot_em,
                   Stock_individual_fund_flow c (fund_flow_market c),
                   Stock_board_concept_cons_em key_eastmoney]"

definition demo_report :: "pystr \<Rightarrow> datetime \<Rightarrow> StockReport" where
  "demo_report c t =
     \<lparr>code = c, name = ustr ''Moutai'', update_time = t,
      fundamental_analysis = FundamentalAnalysis_default,
      valuation_analysis = ValuationAnalysis_default,
      technical_analysis = TechnicalAnalysis_default,
      sentiment_analysis = SentimentAnalysis_default\<lparr>concept_labels := Some []\<rparr>\<rparr>"

text \<open>
  States and runs for the concrete instances. \<open>filler_codes\<close> are the thousand tickers
  000000 to 000999; \<open>requests_at t cs\<close> asks for each ticker of \<open>cs\<close> at time \<open>t\<close>, and
  \<open>cached_at\<close>, \<open>memo_of\<close> are the cache entries and memo entries such a run leaves.
  \<open>busy_service\<close> is a fresh service after a thousand requests at time 0;
  \<open>aged_service\<close> is a fresh service after a request for 600519 at 100 s and 999
  other requests at 301 s.
\<close>

definition demo_state_1 :: StockService where
  "demo_state_1 =
     \<lparr>cache = [(get_cache_key (ustr ''600519''), (demo_report (ustr ''600519'') 0, 0))],
      last_clear_cache = 0,
      info_lru = [(ustr ''600519'', demo_dict)],
      provider_calls = Stock_individual_info_em (ustr ''600519'') # demo_calls (ustr ''600519'')\<rparr>"

definition decimal_digits :: pystr where
  "decimal_digits = ustr ''0123456789''"

definition filler_codes :: "pystr list" where
  "filler_codes =
     map (\<lambda>(x, y, z). ustr ''000'' @ [x, y, z])
       (List.product decimal_digits (List.product decimal_digits decimal_digits))"

definition requests_at :: "datetime \<Rightarrow> pystr list \<Rightarrow> (datetime \<times> provider \<times> pystr) list" where
  "requests_at t cs = map (\<lambda>c. (t, provider_info_only, c)) cs"

definition cached_at :: "datetime \<Rightarrow> pystr list \<Rightarrow> (pystr \<times> (StockReport \<times> datetime)) list" where
  "cached_at t cs = map (\<lambda>c. (get_cache_key c, (demo_report c t, t))) cs"

definition memo_of :: "pystr list \<Rightarrow> (pystr \<times> info_dict) list" where
  "memo_of cs = map (\<lambda>c. (c, demo_dict)) (rev cs)"

definition busy_service :: StockService where
  "busy_service = run_reports settings demo_lib (init_StockService 0) (requests_at 0 filler_codes)"

definition busy_service_1 :: StockService where
  "busy_service_1 =
     snd (get_full_stock_report settings demo_lib provider_info_only 0 busy_service (ustr ''600519''))"

definition demo_state_100 :: StockService where
  "demo_state_100 =
     snd (get_full_stock_report settings demo_lib provider_info_only 100000000 (init_StockService 0) (ustr ''600519''))"

definition aged_service :: StockService where
  "aged_service =
     run_reports settings demo_lib (init_StockService 0)
       ((100000000, provider_info_only, ustr ''600519'') # requests_at 301000000 (take 999 filler_codes))"

text \<open>
  A report is well formed when its code is six characters, all of them digits for
  \<open>str.isdigit\<close>, and its name is not empty; the cache is well formed when every
  entry is stored under the key of its report's code and holds a well-formed
  report.
\<close>

definition report_wf :: "pylib \<Rightarrow> StockReport \<Rightarrow> bool" where
  "report_wf lib r = (length (code r) = 6 \<and> isdigit lib (code r) \<and> name r \<noteq> [])"

definition cache_wf :: "pylib \<Rightarrow> StockService \<Rightarrow> bool" where
  "cache_wf lib s =
     (\<forall>p \<in> set (cache s). fst p = get_cache_key (code (fst (snd p))) \<and> report_wf lib (fst (snd p)))"

text \<open>
  The specification speaks of a code of exactly 6 decimal digits, of a validator
  that forces the code to be exactly 6 digits, and of a ticker \<open>NNNNNN\<close>.
  \<open>spec_six_digits\<close> is this property in the specification's words, with the digits
  \<open>0\<close> to \<open>9\<close>; it is not taken from the code. \<open>fullwidth_code\<close> is the string of the
  six fullwidth digits U+FF11 to U+FF16, the fullwidth forms of 1 to 6.
\<close>

definition spec_six_digits :: "pystr \<Rightarrow> bool" where
  "spec_six_digits c = (length c = 6 \<and> list_all (\<lambda>x. x \<in> set (ustr ''0123456789'')) c)"

definition fullwidth_code :: pystr where
  "fullwidth_code = [0xFF11, 0xFF12, 0xFF13, 0xFF14, 0xFF15, 0xFF16]"

text \<open>
  More providers for the concrete instances: with fund-flow data, with financial
  indicators, with a concept table whose label is not a string, and with basic
  information that carries no name.
\<close>

definition flow_table :: dataframe where
  "flow_table = \<lparr>columns = [key_main_net], rows = [[PyStr (ustr ''12.5'')]]\<rparr>"

definition provider_with_flow :: provider where
  "provider_with_flow call =
     (case call of
        Stock_individual_info_em c \<Rightarrow> Inr demo_info
      | Stock_individual_fund_flow c m \<Rightarrow> Inr flow_table
      | _ \<Rightarrow> Inl ProviderError)"

definition financial_table :: dataframe where
  "financial_table = \<lparr>columns = [key_roe], rows = [[PyStr (ustr ''12.5'')]]\<rparr>"

definition provider_with_financials :: provider where
  "provider_with_financials call =
     (case call of
        Stock_individual_info_em c \<Rightarrow> Inr demo_info
      | Stock_financial_analysis_indicator c \<Rightarrow> Inr financial_table
      | _ \<Rightarrow> Inl ProviderError)"

definition labels_table :: dataframe where
  "labels_table = \<lparr>columns = [key_code, key_board_name], rows = [[PyStr (ustr ''600519''), PyObj (ustr ''1'') True]]\<rparr>"

definition provider_bad_labels :: provider where
  "provider_bad_labels call =
     (case call of
        Stock_individual_info_em c \<Rightarrow> Inr demo_info
      | Stock_board_concept_cons_em k \<Rightarrow> Inr labels_table
      | _ \<Rightarrow> Inl ProviderError)"

definition nameless_info :: dataframe where
  "nameless_info = \<lparr>columns = [ustr ''item'', ustr ''value''], rows = [[PyStr key_total_market_cap, PyStr (ustr ''12.5'')]]\<rparr>"

definition provider_nameless :: provider where
  "provider_nameless call =
     (case call of Stock_individual_info_em c \<Rightarrow> Inr nameless_info | _ \<Rightarrow> Inl ProviderError)"

section \<open>Strings\<close>

lemma ord_eq_iff [simp]: "ord a = ord b \<longleftrightarrow> a = b"
  by (simp add: ord_def)

lemma ustr_eq_iff [simp]: "ustr s = ustr t \<longleftrightarrow> s = t"
  by (simp add: ustr_def inj_map_eq_map inj_def)

lemma ustr_Nil [simp]: "ustr [] = []"
  by (simp add: ustr_def)

lemma ustr_eq_Nil [simp]: "ustr s = [] \<longleftrightarrow> s = []"
  by (simp add: ustr_def)

lemma length_ustr [simp]: "length (ustr s) = length s"
  by (simp add: ustr_def)

lemma distinct_ustr [simp]: "distinct (ustr s) = distinct s"
  by (simp add: ustr_def distinct_map inj_on_def)

lemma take_ustr [simp]: "take n (ustr s) = ustr (take n s)"
  by (simp add: ustr_def take_map)

lemma replace_char_ustr: "replace_char (ord c) (ustr s) = ustr (filter (\<lambda>x. x \<noteq> c) s)"
  by (simp add: replace_char_def ustr_def filter_map comp_def)

lemma strip_inf: "strip (ustr ''inf'') = ustr ''inf''"
  by (simp add: strip_def isspace_def ustr_def ord_def)

section \<open>The value coercion helpers\<close>

lemma except_value_type_cases:
  "except_value_type r d = Inl e \<longleftrightarrow> r = Inl e \<and> e \<noteq> ValueError \<and> e \<noteq> TypeError"
  by (auto simp: except_value_type_def split: sum.splits)

lemma safe_get_float_total: "\<exists>x. safe_get_float lib v dflt = Inr x"
  by (auto simp: safe_get_float_def safe_get_float_body_def except_value_type_def split: option.splits)

lemma safe_get_float_blank:
  "v = PyNone \<or> v = PyStr [] \<or> strip (str v) = ustr ''-'' \<Longrightarrow> safe_get_float lib v dflt = Inr dflt"
  by (auto simp: safe_get_float_def safe_get_float_body_def except_value_type_def)

lemma safe_get_float_parse:
  "\<not> (v = PyNone \<or> v = PyStr [] \<or> strip (str v) = ustr ''-'') \<Longrightarrow>
   safe_get_float lib v dflt =
     (case py_float lib (replace_char (ord CHR ''%'') (replace_char (ord CHR '','') (str v))) of
        None \<Rightarrow> Inr dflt | Some x \<Rightarrow> Inr (Some x))"
  by (auto simp: safe_get_float_def safe_get_float_body_def except_value_type_def split: option.splits)

lemma safe_get_int_blank:
  "v = PyNone \<or> v = PyStr [] \<or> strip (str v) = ustr ''-'' \<Longrightarrow> safe_get_int lib v dflt = Inr dflt"
  by (auto simp: safe_get_int_def safe_get_int_body_def except_value_type_def)

lemma safe_get_int_parse:
  "\<not> (v = PyNone \<or> v = PyStr [] \<or> strip (str v) = ustr ''-'') \<Longrightarrow>
   py_float lib (replace_char (ord CHR '','') (str v)) = Some (Finite q) \<Longrightarrow>
   safe_get_int lib v dflt = Inr (Some (if 0 \<le> q then \<lfloor>q\<rfloor> else \<lceil>q\<rceil>))"
  by (simp add: safe_get_int_def safe_get_int_body_def except_value_type_def bindE_def)

lemma safe_get_int_no_parse:
  "\<not> (v = PyNone \<or> v = PyStr [] \<or> strip (str v) = ustr ''-'') \<Longrightarrow>
   py_float lib (replace_char (ord CHR '','') (str v)) \<in> {None, Some NaN} \<Longrightarrow>
   safe_get_int lib v dflt = Inr dflt"
  by (auto simp: safe_get_int_def safe_get_int_body_def except_value_type_def bindE_def)

lemma safe_get_int_raises_iff:
  "safe_get_int lib v dflt = Inl e \<longleftrightarrow>
     e = OverflowError \<and> \<not> (v = PyNone \<or> v = PyStr [] \<or> strip (str v) = ustr ''-'') \<and>
     py_float lib (replace_char (ord CHR '','') (str v)) \<in> {Some PosInf, Some NegInf}"
  apply (simp add: safe_get_int_def safe_get_int_body_def except_value_type_cases bindE_def split: option.splits)
  apply (auto split: sum.splits)
  subgoal for x by (cases x) auto
  subgoal for x by (cases x) auto
  done

text \<open>
  C9, the integer helper on an infinity. \<open>_safe_get_int\<close> is not total: when \<open>float\<close>
  reads the text as an infinity, as Python's does for \<open>inf\<close>, the conversion to \<open>int\<close>
  raises \<open>OverflowError\<close>, which the clause \<open>except (ValueError, TypeError)\<close> does not
  catch, so the helper raises instead of returning the default.
\<close>

theorem safe_get_int_overflow:
  "py_float lib (ustr ''inf'') = Some PosInf \<Longrightarrow> safe_get_int lib (PyStr (ustr ''inf'')) dflt = Inl OverflowError"
proof -
  assume inf: "py_float lib (ustr ''inf'') = Some PosInf"
  show ?thesis
    by (simp add: safe_get_int_def safe_get_int_body_def except_value_type_def bindE_def
          strip_inf replace_char_ustr inf)
qed

theorem safe_get_int_overflow_witness:
  "py_float demo_lib (ustr ''inf'') = Some PosInf \<and>
   safe_get_int demo_lib (PyStr (ustr ''inf'')) None = Inl OverflowError"
  using safe_get_int_overflow [of demo_lib None] by (simp add: demo_lib_def)

section \<open>Time and expiry\<close>


lemma timedelta_seconds_le:
  assumes "0 \<le> d" "d \<le> ttl * 1000000"
  shows "timedelta_seconds d \<le> ttl"
proof -
  have "d mod 86400000000 \<le> d" using assms(1) by (simp add: zmod_le_nonneg_dividend)
  then have "(d mod 86400000000) div 1000000 \<le> d div 1000000" by (rule zdiv_mono1) simp
  also have "d div 1000000 \<le> ttl" using assms(2) by linarith
  finally show ?thesis by (simp add: timedelta_seconds_def)
qed

lemma timedelta_seconds_gt:
  assumes "(ttl + 1) * 1000000 \<le> d" "d < 86400000000"
  shows "timedelta_seconds d > ttl \<or> d < 0"
  using assms by (auto simp: timedelta_seconds_def)

lemma timedelta_seconds_wrap:
  "timedelta_seconds (86400000000 + d) = timedelta_seconds d"
  by (simp add: timedelta_seconds_def)

lemma not_expired_within_ttl:
  "t \<le> now \<Longrightarrow> now - t \<le> CACHE_TTL cfg * 1000000 \<Longrightarrow> \<not> is_cache_expired cfg now t"
  using timedelta_seconds_le [of "now - t" "CACHE_TTL cfg"] by (simp add: is_cache_expired_def)

lemma expired_after_ttl:
  "(CACHE_TTL cfg + 1) * 1000000 \<le> now - t \<Longrightarrow> now - t < 86400000000 \<Longrightarrow> 0 \<le> now - t \<Longrightarrow>
   is_cache_expired cfg now t"
  using timedelta_seconds_gt [of "CACHE_TTL cfg" "now - t"] by (simp add: is_cache_expired_def)

section \<open>The cache and the sweep\<close>

lemma get_full_hit:
  "map_of (cache s) (get_cache_key c) = Some (r, t) \<Longrightarrow> \<not> is_cache_expired cfg now t \<Longrightarrow>
   get_full_stock_report cfg lib w now s c = (Inr r, s)"
  by (simp add: get_full_stock_report_def)

lemma get_full_miss:
  "no_fresh_entry cfg now s c \<Longrightarrow>
   get_full_stock_report cfg lib w now s c = fetch_report cfg lib w now s c"
  by (auto simp: get_full_stock_report_def no_fresh_entry_def split: option.splits)

lemma get_full_cases:
  obtains (hit) r where "get_full_stock_report cfg lib w now s c = (Inr r, s)"
      and "\<exists>t. map_of (cache s) (get_cache_key c) = Some (r, t)"
    | (miss) "get_full_stock_report cfg lib w now s c = fetch_report cfg lib w now s c"
proof (cases "no_fresh_entry cfg now s c")
  case True
  then show ?thesis using miss by (simp add: get_full_miss)
next
  case False
  then obtain r t where "map_of (cache s) (get_cache_key c) = Some (r, t)"
    and "\<not> is_cache_expired cfg now t"
    by (auto simp: no_fresh_entry_def split: option.splits)
  then show ?thesis using hit get_full_hit by blast
qed

lemma foldl_delete:
  "foldl (\<lambda>c key. AList.delete key c) al ks = filter (\<lambda>p. fst p \<notin> set ks) al"
proof (induction ks arbitrary: al)
  case Nil
  then show ?case by simp
next
  case (Cons k ks)
  have "filter (\<lambda>p. fst p \<notin> set ks) (AList.delete k al) = filter (\<lambda>p. fst p \<notin> set (k # ks)) al"
    by (induction al) (auto simp: AList.delete_eq)
  with Cons show ?case by simp
qed

lemma sweep_info_lru [simp]: "info_lru (clear_expired_cache cfg now s) = info_lru s"
  by (simp add: clear_expired_cache_def Let_def)

lemma sweep_provider_calls [simp]: "provider_calls (clear_expired_cache cfg now s) = provider_calls s"
  by (simp add: clear_expired_cache_def Let_def)

lemma sweep_length: "length (cache (clear_expired_cache cfg now s)) \<le> length (cache s)"
  by (simp add: clear_expired_cache_def Let_def foldl_delete)

lemma map_of_filter_keys:
  "map_of (filter (\<lambda>p. fst p \<notin> K) al) k = (if k \<in> K then None else map_of al k)"
  by (induction al) auto


lemma sweep_not_due:
  "\<not> timedelta_seconds (now - last_clear_cache s) > CACHE_TTL cfg \<Longrightarrow> clear_expired_cache cfg now s = s"
  by (simp add: clear_expired_cache_def)

lemma get_stock_info_cong:
  "w' (Stock_individual_info_em c) = w (Stock_individual_info_em c) \<Longrightarrow>
   get_stock_info cfg w' lru c = get_stock_info cfg w lru c"
proof -
  assume "w' (Stock_individual_info_em c) = w (Stock_individual_info_em c)"
  then have "get_stock_info_uncached w' c = get_stock_info_uncached w c"
    by (simp add: get_stock_info_uncached_def get_stock_info_body_def)
  then show ?thesis by (simp add: get_stock_info_def split: option.splits)
qed

section \<open>The section fetchers\<close>

lemma fundamental_raise:
  "w (Stock_financial_analysis_indicator c) = Inl e \<Longrightarrow>
   fst (get_fundamental_data cfg lib w lru c) = Inr FundamentalAnalysis_default"
  by (simp add: get_fundamental_data_def fundamental_try_def except_Exception_def
      split: prod.splits sum.splits)

lemma fundamental_lru:
  "fst (snd (get_fundamental_data cfg lib w lru c)) = fst (snd (get_stock_info cfg w lru c))"
  by (simp add: get_fundamental_data_def fundamental_try_def split: prod.splits sum.splits)

lemma fundamental_cong:
  assumes "w' (Stock_individual_info_em c) = w (Stock_individual_info_em c)"
    and "w' (Stock_financial_analysis_indicator c) = w (Stock_financial_analysis_indicator c)"
  shows "get_fundamental_data cfg lib w' lru c = get_fundamental_data cfg lib w lru c"
  by (simp add: get_fundamental_data_def fundamental_try_def
      get_stock_info_cong [where w'=w' and w=w and c=c, OF assms(1)] assms(2)
      cong: sum.case_cong prod.case_cong)

lemma valuation_cong:
  assumes "w' (Stock_individual_info_em c) = w (Stock_individual_info_em c)"
  shows "get_valuation_data cfg lib w' lru c = get_valuation_data cfg lib w lru c"
  by (simp add: get_valuation_data_def valuation_try_def get_stock_info_cong [where w'=w' and w=w and c=c, OF assms(1)])

lemma technical_raise:
  "(\<exists>e. w Stock_zh_a_spot_em = Inl e) \<or> (\<exists>e. w (Stock_zh_a_hist c) = Inl e) \<Longrightarrow>
   fst (get_technical_data lib w c) = Inr TechnicalAnalysis_default"
  by (auto simp: get_technical_data_def technical_try_def except_Exception_def
      split: prod.splits sum.splits)

lemma technical_cong:
  assumes "w' Stock_zh_a_spot_em = w Stock_zh_a_spot_em"
    and "w' (Stock_zh_a_hist c) = w (Stock_zh_a_hist c)"
  shows "get_technical_data lib w' c = get_technical_data lib w c"
  by (simp add: get_technical_data_def technical_try_def assms cong: sum.case_cong)

lemma sentiment_raise:
  assumes "w (Stock_individual_fund_flow c (fund_flow_market c)) = Inl e"
    and "w (Stock_board_concept_cons_em key_eastmoney) = Inl e'"
  shows "fst (get_sentiment_data lib w c) =
           Inr (SentimentAnalysis_default\<lparr>concept_labels := Some []\<rparr>)"
  by (simp add: get_sentiment_data_def sentiment_try_def sentiment_flow_def sentiment_concepts_def
      validate_str_list_def bindE_def except_Exception_def assms)

lemma sentiment_cong:
  assumes "w' (Stock_individual_fund_flow c (fund_flow_market c)) =
           w (Stock_individual_fund_flow c (fund_flow_market c))"
    and "w' (Stock_board_concept_cons_em key_eastmoney) = w (Stock_board_concept_cons_em key_eastmoney)"
  shows "get_sentiment_data lib w' c = get_sentiment_data lib w c"
  by (simp add: get_sentiment_data_def sentiment_try_def sentiment_flow_def sentiment_concepts_def assms)

section \<open>The report\<close>

lemma report_try_Inr:
  assumes "get_stock_info cfg w (info_lru s) c = (Inr info, lru1, c1)"
    and "dict_get info key_stock_name (PyStr []) = PyStr n" "n \<noteq> []"
    and "length c = 6" "isdigit lib c"
  shows "fst (report_try cfg lib w now s c) =
     Inr \<lparr>code = c, name = n, update_time = now,
          fundamental_analysis =
            gathered (fst (get_fundamental_data cfg lib w lru1 c)) FundamentalAnalysis_default,
          valuation_analysis =
            gathered (fst (get_valuation_data cfg lib w
                        (fst (snd (get_fundamental_data cfg lib w lru1 c))) c)) ValuationAnalysis_default,
          technical_analysis = gathered (fst (get_technical_data lib w c)) TechnicalAnalysis_default,
          sentiment_analysis = gathered (fst (get_sentiment_data lib w c)) SentimentAnalysis_default\<rparr>"
proof -
  obtain r_f lru2 c2 where f: "get_fundamental_data cfg lib w lru1 c = (r_f, lru2, c2)"
    by (metis prod_cases3)
  obtain r_v lru3 c3 where v: "get_valuation_data cfg lib w lru2 c = (r_v, lru3, c3)"
    by (metis prod_cases3)
  obtain r_t c4 where t: "get_technical_data lib w c = (r_t, c4)"
    by (metis surj_pair)
  obtain r_s c5 where sn: "get_sentiment_data lib w c = (r_s, c5)"
    by (metis surj_pair)
  show ?thesis
    using assms by (auto simp: report_try_def f v t sn new_StockReport_def validate_stock_code_def Let_def)
qed

lemma report_try_info_raises:
  "get_stock_info cfg w (info_lru s) c = (Inl e, lru1, c1) \<Longrightarrow>
   fst (report_try cfg lib w now s c) = Inl e"
  by (simp add: report_try_def)

lemma report_try_no_name:
  "get_stock_info cfg w (info_lru s) c = (Inr info, lru1, c1) \<Longrightarrow>
   \<not> truthy (dict_get info key_stock_name (PyStr [])) \<Longrightarrow>
   fst (report_try cfg lib w now s c) = Inl StockNotFoundError"
  by (simp add: report_try_def)

lemma get_stock_info_raises: "get_stock_info cfg w lru c = (Inl e, lru1, c1) \<Longrightarrow> e = StockDataError"
  by (auto simp: get_stock_info_def get_stock_info_uncached_def split: option.splits sum.splits)

lemma fetch_report_fst:
  "fst (fetch_report cfg lib w now s c) =
     (case fst (report_try cfg lib w now (clear_expired_cache cfg now s) c) of
        Inl e \<Rightarrow> Inl (report_except e) | Inr r \<Rightarrow> Inr r)"
  by (simp add: fetch_report_def split: prod.splits sum.splits)

lemma get_cache_key_inj: "get_cache_key a = get_cache_key b \<Longrightarrow> a = b"
  by (simp add: get_cache_key_def)

lemma report_try_code_name:
  assumes "report_try cfg lib w now s c = (Inr r, s')"
  shows "code r = c \<and> length c = 6 \<and> isdigit lib c \<and> name r \<noteq> [] \<and> update_time r = now"
proof -
  obtain res lru1 c1 where gi: "get_stock_info cfg w (info_lru s) c = (res, lru1, c1)"
    by (metis prod_cases3)
  obtain r_f lru2 c2 where f: "get_fundamental_data cfg lib w lru1 c = (r_f, lru2, c2)"
    by (metis prod_cases3)
  obtain r_v lru3 c3 where v: "get_valuation_data cfg lib w lru2 c = (r_v, lru3, c3)"
    by (metis prod_cases3)
  obtain r_t c4 where t: "get_technical_data lib w c = (r_t, c4)"
    by (metis surj_pair)
  obtain r_s c5 where sn: "get_sentiment_data lib w c = (r_s, c5)"
    by (metis surj_pair)
  show ?thesis
  proof (cases res)
    case (Inl e)
    with assms gi show ?thesis by (simp add: report_try_def)
  next
    case (Inr info)
    with assms gi f v t sn show ?thesis
      by (auto simp: report_try_def new_StockReport_def validate_stock_code_def Let_def
               split: if_splits sum.splits pyval.splits)
  qed
qed

lemma technical_calls: "Stock_zh_a_spot_em \<in> set (snd (get_technical_data lib w c))"
  by (simp add: get_technical_data_def technical_try_def split: sum.splits prod.splits)

lemma report_try_state:
  assumes "report_try cfg lib w now s c = (res, s')"
  shows "last_clear_cache s' = last_clear_cache s \<and>
         (\<exists>cs. provider_calls s' = provider_calls s @ cs \<and> (\<forall>r. res = Inr r \<longrightarrow> cs \<noteq> [])) \<and>
         (case res of
            Inl e \<Rightarrow> cache s' = cache s
          | Inr r \<Rightarrow> cache s' = (if int (length (cache s)) < MAX_CACHE_SIZE cfg
                                  then AList.update (get_cache_key c) (r, now) (cache s)
                                  else cache s))"
proof -
  obtain gi lru1 c1 where gi: "get_stock_info cfg w (info_lru s) c = (gi, lru1, c1)"
    by (metis prod_cases3)
  obtain r_f lru2 c2 where f: "get_fundamental_data cfg lib w lru1 c = (r_f, lru2, c2)"
    by (metis prod_cases3)
  obtain r_v lru3 c3 where v: "get_valuation_data cfg lib w lru2 c = (r_v, lru3, c3)"
    by (metis prod_cases3)
  obtain r_t c4 where t: "get_technical_data lib w c = (r_t, c4)"
    by (metis surj_pair)
  obtain r_s c5 where sn: "get_sentiment_data lib w c = (r_s, c5)"
    by (metis surj_pair)
  have c4: "c4 \<noteq> []" using technical_calls [of lib w c] t by auto
  show ?thesis
  proof (cases gi)
    case (Inl e)
    with assms gi show ?thesis by (auto simp: report_try_def)
  next
    case (Inr info)
    show ?thesis
    proof (cases "truthy (dict_get info key_stock_name (PyStr []))")
      case False
      with assms gi Inr show ?thesis by (auto simp: report_try_def)
    next
      case True
      with assms gi Inr f v t sn c4 show ?thesis
        by (auto simp: report_try_def Let_def split: sum.splits)
    qed
  qed
qed

lemma fetch_report_state:
  assumes "fetch_report cfg lib w now s c = (res, s')"
  shows "(\<exists>cs. provider_calls s' = provider_calls s @ cs \<and> (\<forall>r. res = Inr r \<longrightarrow> cs \<noteq> [])) \<and>
         (case res of
            Inl e \<Rightarrow> cache s' = cache (clear_expired_cache cfg now s)
          | Inr r \<Rightarrow> cache s' =
                (if int (length (cache (clear_expired_cache cfg now s))) < MAX_CACHE_SIZE cfg
                 then AList.update (get_cache_key c) (r, now) (cache (clear_expired_cache cfg now s))
                 else cache (clear_expired_cache cfg now s)))"
proof -
  obtain res0 where r0: "report_try cfg lib w now (clear_expired_cache cfg now s) c = (res0, s')"
    using assms by (auto simp: fetch_report_def split: prod.splits sum.splits)
  have res: "res = (case res0 of Inl e \<Rightarrow> Inl (report_except e) | Inr r \<Rightarrow> Inr r)"
    using assms r0 by (auto simp: fetch_report_def split: sum.splits)
  show ?thesis
    using report_try_state [OF r0] res by (auto split: sum.splits)
qed

lemma fetch_report_Inr:
  "fetch_report cfg lib w now s c = (Inr r, s') \<Longrightarrow>
   report_try cfg lib w now (clear_expired_cache cfg now s) c = (Inr r, s')"
  by (auto simp: fetch_report_def split: prod.splits sum.splits)

section \<open>The example provider\<close>

lemma demo_get_stock_info_miss:
  "map_of lru c = None \<Longrightarrow>
   get_stock_info cfg provider_info_only lru c =
     (Inr [(PyStr key_stock_name, PyStr (ustr ''Moutai''))],
      take (nat (MAX_CACHE_SIZE cfg)) ((c, [(PyStr key_stock_name, PyStr (ustr ''Moutai''))]) # lru),
      [Stock_individual_info_em c])"
  by (simp add: get_stock_info_def get_stock_info_uncached_def get_stock_info_body_def
      provider_info_only_def demo_info_def df_empty_def bindE_def series_item_def)


lemmas demo_defs = get_stock_info_def get_stock_info_uncached_def get_stock_info_body_def
  provider_info_only_def demo_info_def df_empty_def bindE_def series_item_def
  get_fundamental_data_def fundamental_try_def except_Exception_def
  get_valuation_data_def valuation_try_def raise_or_return_def
  dict_get_def safe_get_float_def safe_get_float_body_def except_value_type_def
  get_technical_data_def technical_try_def
  get_sentiment_data_def sentiment_try_def sentiment_flow_def sentiment_concepts_def
  validate_str_list_def gathered_def new_StockReport_def validate_stock_code_def
  demo_dict_def demo_calls_def demo_report_def

lemmas key_defs = key_stock_name_def key_pe_static_def key_pe_dynamic_def key_pe_ttm_def key_pb_def key_ps_def
      key_dividend_yield_def

lemma demo_lib_digits [simp]:
  "chr_isdigit demo_lib = (\<lambda>c. demo_decimal c \<or> c \<in> set [0xB2, 0xB3, 0xB9])"
  "re_digit demo_lib = demo_decimal"
  "re_dollar_newline demo_lib = False"
  by (simp_all add: demo_lib_def)

lemma ustr_demo_decimal: "list_all (\<lambda>x. x \<in> set ''0123456789'') s \<Longrightarrow> list_all demo_decimal (ustr s)"
  by (induction s) (auto simp: ustr_def ord_def demo_decimal_def)

lemma isdigit_600519: "isdigit demo_lib (ustr ''600519'')"
  by (simp add: isdigit_def demo_decimal_def ustr_def ord_def)

lemma demo_report_try_miss:
  "report_try settings demo_lib provider_info_only now
      \<lparr>cache = cch, last_clear_cache = lc, info_lru = [], provider_calls = pc\<rparr> (ustr ''600519'') =
   (Inr (demo_report (ustr ''600519'') now),
    \<lparr>cache = (if int (length cch) < 1000
               then AList.update (get_cache_key (ustr ''600519'')) (demo_report (ustr ''600519'') now, now) cch
               else cch),
     last_clear_cache = lc,
     info_lru = [(ustr ''600519'', demo_dict)],
     provider_calls = pc @ Stock_individual_info_em (ustr ''600519'') # demo_calls (ustr ''600519'')\<rparr>)"
  by (simp add: report_try_def demo_defs key_defs settings_def isdigit_600519 ValuationAnalysis_default_def)


section \<open>The endpoint\<close>

lemma drop_singleton: "drop n s = [x] \<longleftrightarrow> length s = Suc n \<and> s ! n = x"
proof
  assume d: "drop n s = [x]"
  then have "length (drop n s) = 1" by simp
  then have l: "length s = Suc n" by simp
  have "s ! n = drop n s ! 0" using l by simp
  then show "length s = Suc n \<and> s ! n = x" using l d by simp
next
  assume "length s = Suc n \<and> s ! n = x"
  then show "drop n s = [x]"
    by (metis Cons_nth_drop_Suc drop_all lessI order_refl)
qed

text \<open>
  What the pattern \<open>^\d{6}$\<close> matches: the strings of six characters of the class
  \<open>\d\<close> and, with an engine whose \<open>$\<close> also matches before a final line feed, such a
  string followed by a line feed.
\<close>

lemma query_regex_iff:
  "query_regex lib c \<longleftrightarrow>
     (length c = 6 \<and> list_all (re_digit lib) c) \<or>
     (re_dollar_newline lib \<and> length c = 7 \<and> list_all (re_digit lib) (take 6 c) \<and> c ! 6 = 0x0A)"
proof -
  have "query_regex lib c \<longleftrightarrow> re_match_at lib [Re_start, Re_digits 6, Re_end] c 0"
    by (auto simp: query_regex_def re_search_def list_ex_iff)
  also have "\<dots> \<longleftrightarrow> 6 \<le> length c \<and> list_all (re_digit lib) (take 6 c) \<and>
                (6 = length c \<or> re_dollar_newline lib \<and> drop 6 c = [0x0A])"
    by simp
  also have "\<dots> \<longleftrightarrow> (length c = 6 \<and> list_all (re_digit lib) c) \<or>
     (re_dollar_newline lib \<and> length c = 7 \<and> list_all (re_digit lib) (take 6 c) \<and> c ! 6 = 0x0A)"
    by (auto simp: drop_singleton)
  finally show ?thesis .
qed

lemma handler_check_becomes_500:
  "c = [] \<or> length c \<noteq> 6 \<or> \<not> isdigit lib c \<Longrightarrow>
   handler_try cfg lib w now s c = (Inl (HTTPException 400), s) \<and>
   handler_except (HTTPException 400) = 500"
  by (simp add: handler_try_def)

lemma handler_try_valid:
  "length c = 6 \<Longrightarrow> isdigit lib c \<Longrightarrow>
   handler_try cfg lib w now s c = get_full_stock_report cfg lib w now s c"
  by (auto simp: handler_try_def)

lemma endpoint_valid:
  "query_regex lib c \<Longrightarrow> length c = 6 \<Longrightarrow> isdigit lib c \<Longrightarrow>
   fst (get_stock_full_report cfg lib w now s (Some c)) =
     (case fst (get_full_stock_report cfg lib w now s c) of
        Inl e \<Rightarrow> \<lparr>status_code = handler_except e, body = None\<rparr>
      | Inr r \<Rightarrow> \<lparr>status_code = 200, body = Some r\<rparr>)"
  by (simp add: get_stock_full_report_def handler_try_valid split: prod.splits sum.splits)





lemma endpoint_500:
  assumes "query_regex lib c" and "fst (get_full_stock_report cfg lib w now s c) = Inl StockDataError"
  shows "status_code (fst (get_stock_full_report cfg lib w now s (Some c))) = 500"
  using assms by (auto simp: get_stock_full_report_def handler_try_def split: prod.splits sum.splits)

text \<open>
  With an engine whose \<open>$\<close> matches before a final line feed, six digits followed by
  a line feed pass the check of the parameter and fail the handler's own check; the
  \<open>HTTPException\<close> with status 400 that the handler raises is caught by its own
  \<open>except Exception\<close>, and the answer is 500. The service is not invoked.
\<close>

lemma trailing_newline_500:
  assumes "re_dollar_newline lib" and "length d = 6" and "list_all (re_digit lib) d"
  shows "query_regex lib (d @ [0x0A]) \<and>
         get_stock_full_report cfg lib w now s (Some (d @ [0x0A])) =
           (\<lparr>status_code = 500, body = None\<rparr>, s)"
proof -
  have q: "query_regex lib (d @ [0x0A])"
    using assms by (simp add: query_regex_iff nth_append)
  have "handler_try cfg lib w now s (d @ [0x0A]) = (Inl (HTTPException 400), s)"
    using assms(2) by (simp add: handler_try_def)
  then show ?thesis using q by (simp add: get_stock_full_report_def)
qed

lemma get_stock_info_empty:
  assumes "map_of lru c = None" "w (Stock_individual_info_em c) = Inr df" "df_empty df"
  shows "get_stock_info cfg w lru c = (Inl StockDataError, lru, [Stock_individual_info_em c])"
  using assms
  by (simp add: get_stock_info_def get_stock_info_uncached_def get_stock_info_body_def bindE_def)

lemma query_regex_999999: "query_regex demo_lib (ustr ''999999'')"
  by (simp add: query_regex_iff ustr_demo_decimal)

lemma query_regex_600519: "query_regex demo_lib (ustr ''600519'')"
  by (simp add: query_regex_iff ustr_demo_decimal)



text \<open>
  C1, unknown ticker. For a ticker that the endpoint's pattern matches: when the
  basic-information call returns an empty table, the \<open>StockNotFoundError\<close> raised in
  \<open>_get_stock_info\<close> is caught by that function's own \<open>except Exception\<close> and leaves
  it as \<open>StockDataError\<close>; the endpoint answers 500, not 404.
\<close>

theorem unknown_ticker_status:
  assumes "query_regex lib c" and "no_fresh_entry cfg now s c" and "map_of (info_lru s) c = None"
    and "w (Stock_individual_info_em c) = Inr df" and "df_empty df"
  shows "fst (get_full_stock_report cfg lib w now s c) = Inl StockDataError \<and>
         status_code (fst (get_stock_full_report cfg lib w now s (Some c))) = 500"
proof -
  have "get_stock_info cfg w (info_lru (clear_expired_cache cfg now s)) c =
          (Inl StockDataError, info_lru s, [Stock_individual_info_em c])"
    using assms(3-5) by (simp add: get_stock_info_empty)
  then have "fst (report_try cfg lib w now (clear_expired_cache cfg now s) c) = Inl StockDataError"
    by (rule report_try_info_raises)
  then have "fst (get_full_stock_report cfg lib w now s c) = Inl StockDataError"
    using assms(2) by (simp add: get_full_miss fetch_report_fst report_except_def)
  then show ?thesis using assms(1) by (simp add: endpoint_500)
qed

theorem unknown_ticker_status_witness:
  "query_regex demo_lib (ustr ''999999'') \<and> no_fresh_entry settings 0 (init_StockService 0) (ustr ''999999'') \<and>
   map_of (info_lru (init_StockService 0)) (ustr ''999999'') = None \<and>
   provider_unknown (Stock_individual_info_em (ustr ''999999'')) = Inr empty_info \<and>
   df_empty empty_info \<and>
   fst (get_full_stock_report settings demo_lib provider_unknown 0 (init_StockService 0) (ustr ''999999''))
     = Inl StockDataError \<and>
   status_code (fst (get_stock_full_report settings demo_lib provider_unknown 0 (init_StockService 0)
     (Some (ustr ''999999'')))) = 500"
proof -
  have h: "no_fresh_entry settings 0 (init_StockService 0) (ustr ''999999'')"
    by (simp add: no_fresh_entry_def init_StockService_def)
  have l: "map_of (info_lru (init_StockService 0)) (ustr ''999999'') = None"
    by (simp add: init_StockService_def)
  have p: "provider_unknown (Stock_individual_info_em (ustr ''999999'')) = Inr empty_info"
    by (simp add: provider_unknown_def)
  have e: "df_empty empty_info"
    by (simp add: df_empty_def empty_info_def)
  show ?thesis
    using unknown_ticker_status [where c = "ustr ''999999''" and cfg = settings and now = 0
        and s = "init_StockService 0" and w = provider_unknown and lib = demo_lib
        and df = empty_info]
      query_regex_999999 h l p e
    by simp
qed

section \<open>Caching, expiry and the size guard\<close>

lemma init_no_fresh: "no_fresh_entry cfg now (init_StockService t0) c"
  by (simp add: no_fresh_entry_def init_StockService_def)

lemma demo_first_call:
  "get_full_stock_report settings demo_lib provider_info_only 0 (init_StockService 0) (ustr ''600519'') =
     (Inr (demo_report (ustr ''600519'') 0), demo_state_1)"
proof -
  have "clear_expired_cache settings 0 (init_StockService 0) = init_StockService 0"
    by (simp add: clear_expired_cache_def init_StockService_def timedelta_seconds_def settings_def)
  then show ?thesis
    by (simp add: get_full_miss init_no_fresh fetch_report_def)
       (simp add: init_StockService_def demo_report_try_miss demo_state_1_def)
qed

text \<open>
  C3, amended. When a request was served by a fetch that succeeded and found room in
  the cache (fewer than \<open>MAX_CACHE_SIZE\<close> entries after the sweep), a second request for
  the same ticker at most \<open>CACHE_TTL\<close> seconds later returns exactly that report and
  leaves the whole state unchanged, the record of provider calls included, whatever
  the provider would answer.
\<close>

theorem cached_report_within_ttl:
  assumes first: "get_full_stock_report cfg lib w1 t1 s c = (Inr r, s1)"
    and miss: "no_fresh_entry cfg t1 s c"
    and room: "int (length (cache (clear_expired_cache cfg t1 s))) < MAX_CACHE_SIZE cfg"
    and later: "t1 \<le> t2" and within: "t2 - t1 \<le> CACHE_TTL cfg * 1000000"
  shows "get_full_stock_report cfg lib w2 t2 s1 c = (Inr r, s1)"
proof -
  have "fetch_report cfg lib w1 t1 s c = (Inr r, s1)"
    using first miss by (simp add: get_full_miss)
  from fetch_report_state [OF this] room
  have "cache s1 = AList.update (get_cache_key c) (r, t1) (cache (clear_expired_cache cfg t1 s))"
    by simp
  then have "map_of (cache s1) (get_cache_key c) = Some (r, t1)"
    by (simp add: update_conv')
  moreover have "\<not> is_cache_expired cfg t2 t1"
    using later within by (rule not_expired_within_ttl)
  ultimately show ?thesis by (rule get_full_hit)
qed

theorem cached_report_within_ttl_witness:
  "get_full_stock_report settings demo_lib provider_info_only 0 (init_StockService 0) (ustr ''600519'') =
     (Inr (demo_report (ustr ''600519'') 0), demo_state_1) \<and>
   no_fresh_entry settings 0 (init_StockService 0) (ustr ''600519'') \<and>
   int (length (cache (clear_expired_cache settings 0 (init_StockService 0)))) < MAX_CACHE_SIZE settings \<and>
   (0::int) \<le> 300000000 \<and> 300000000 - 0 \<le> CACHE_TTL settings * 1000000 \<and>
   get_full_stock_report settings demo_lib provider_down 300000000 demo_state_1 (ustr ''600519'') =
     (Inr (demo_report (ustr ''600519'') 0), demo_state_1)"
proof -
  have room: "int (length (cache (clear_expired_cache settings 0 (init_StockService 0)))) < MAX_CACHE_SIZE settings"
    by (simp add: clear_expired_cache_def init_StockService_def timedelta_seconds_def settings_def)
  have w: "300000000 - 0 \<le> CACHE_TTL settings * 1000000"
    by (simp add: settings_def)
  show ?thesis
    using cached_report_within_ttl [where cfg = settings and lib = demo_lib and ?w1.0 = provider_info_only
        and ?t1.0 = 0 and s = "init_StockService 0" and c = "ustr ''600519''" and r = "demo_report (ustr ''600519'') 0"
        and ?s1.0 = demo_state_1 and ?t2.0 = 300000000 and ?w2.0 = provider_down]
      demo_first_call init_no_fresh room w
    by simp
qed

subsection \<open>Requests to the provider that knows only names\<close>

lemma get_stock_info_front:
  "c \<notin> fst ` set rest \<Longrightarrow>
   get_stock_info cfg w ((c, d) # rest) c = (Inr d, (c, d) # rest, [])"
  by (simp add: get_stock_info_def)

lemma info_only_get_stock_info:
  assumes "map_of lru c = None \<or> map_of lru c = Some demo_dict" and "0 < MAX_CACHE_SIZE cfg"
  shows "\<exists>rest cs. get_stock_info cfg provider_info_only lru c = (Inr demo_dict, (c, demo_dict) # rest, cs)
           \<and> c \<notin> fst ` set rest"
  using assms(1)
proof
  assume m: "map_of lru c = None"
  then have notin: "c \<notin> fst ` set lru" by (simp add: map_of_eq_None_iff)
  obtain k where k: "nat (MAX_CACHE_SIZE cfg) = Suc k"
    using assms(2) by (cases "nat (MAX_CACHE_SIZE cfg)") auto
  have "c \<notin> fst ` set (take k lru)"
    using notin by (auto dest: in_set_takeD)
  then show ?thesis
    using m k by (simp add: demo_get_stock_info_miss demo_dict_def)
next
  assume "map_of lru c = Some demo_dict"
  then show ?thesis
    by (simp add: get_stock_info_def delete_notin_dom)
qed

lemma info_only_fundamental:
  "c \<notin> fst ` set rest \<Longrightarrow>
   get_fundamental_data cfg lib provider_info_only ((c, d) # rest) c =
     (Inr FundamentalAnalysis_default, (c, d) # rest, [Stock_financial_analysis_indicator c])"
  by (simp add: get_fundamental_data_def fundamental_try_def get_stock_info_front
      provider_info_only_def except_Exception_def)

lemma info_only_valuation:
  "c \<notin> fst ` set rest \<Longrightarrow>
   get_valuation_data cfg lib provider_info_only ((c, demo_dict) # rest) c =
     (Inr ValuationAnalysis_default, (c, demo_dict) # rest, [])"
  by (simp add: get_valuation_data_def valuation_try_def get_stock_info_front
      except_Exception_def raise_or_return_def dict_get_def safe_get_float_def
      safe_get_float_body_def except_value_type_def demo_dict_def key_defs
      ValuationAnalysis_default_def)

lemma info_only_technical:
  "get_technical_data lib provider_info_only c = (Inr TechnicalAnalysis_default, [Stock_zh_a_spot_em])"
  by (simp add: get_technical_data_def technical_try_def provider_info_only_def except_Exception_def)

lemma info_only_sentiment:
  "get_sentiment_data lib provider_info_only c =
     (Inr (SentimentAnalysis_default\<lparr>concept_labels := Some []\<rparr>),
      [Stock_individual_fund_flow c (fund_flow_market c), Stock_board_concept_cons_em key_eastmoney])"
  by (simp add: get_sentiment_data_def sentiment_try_def sentiment_flow_def sentiment_concepts_def
      validate_str_list_def bindE_def provider_info_only_def except_Exception_def)

lemma info_only_report_try:
  assumes "length c = 6" "isdigit lib c"
    and "map_of (info_lru s) c = None \<or> map_of (info_lru s) c = Some demo_dict"
    and "0 < MAX_CACHE_SIZE cfg"
  shows "report_try cfg lib provider_info_only now s c =
     (Inr (demo_report c now),
      s\<lparr>info_lru := fst (snd (get_stock_info cfg provider_info_only (info_lru s) c)),
        provider_calls := provider_calls s
           @ snd (snd (get_stock_info cfg provider_info_only (info_lru s) c)) @ demo_calls c,
        cache := (if int (length (cache s)) < MAX_CACHE_SIZE cfg
                  then AList.update (get_cache_key c) (demo_report c now, now) (cache s)
                  else cache s)\<rparr>)"
proof -
  obtain rest cs where g: "get_stock_info cfg provider_info_only (info_lru s) c =
      (Inr demo_dict, (c, demo_dict) # rest, cs)" and r: "c \<notin> fst ` set rest"
    using info_only_get_stock_info [OF assms(3,4)] by blast
  have n: "dict_get demo_dict key_stock_name (PyStr []) = PyStr (ustr ''Moutai'')"
    by (simp add: dict_get_def demo_dict_def)
  show ?thesis
    using assms(1,2) r
    by (auto simp: report_try_def g n info_only_fundamental info_only_valuation info_only_technical
        info_only_sentiment gathered_def new_StockReport_def validate_stock_code_def demo_report_def
        demo_calls_def)
qed

subsection \<open>A run that fills the cache\<close>

lemma decimal_digits_length: "length decimal_digits = 10"
  by (simp add: decimal_digits_def)

lemma decimal_digits_distinct: "distinct decimal_digits"
  by (simp add: decimal_digits_def)

lemma decimal_digits_digit: "x \<in> set decimal_digits \<Longrightarrow> demo_decimal x"
  by (auto simp: decimal_digits_def ustr_def ord_def demo_decimal_def)

lemma filler_codes_length: "length filler_codes = 1000"
  by (simp add: filler_codes_def decimal_digits_length)

lemma filler_codes_distinct: "distinct filler_codes"
proof -
  have "inj (\<lambda>(x, y, z). ustr ''000'' @ [x, y, z :: codepoint])"
    by (auto simp: inj_on_def)
  then have "inj_on (\<lambda>(x, y, z). ustr ''000'' @ [x, y, z :: codepoint])
               (set (List.product decimal_digits (List.product decimal_digits decimal_digits)))"
    by (rule inj_on_subset) simp
  moreover have "distinct (List.product decimal_digits (List.product decimal_digits decimal_digits))"
    by (simp only: distinct_product decimal_digits_distinct)
  ultimately show ?thesis
    by (simp only: filler_codes_def distinct_map)
qed

lemma filler_codes_form:
  assumes "c \<in> set filler_codes"
  obtains x y z where "c = ustr ''000'' @ [x, y, z]"
    and "demo_decimal x" and "demo_decimal y" and "demo_decimal z"
proof -
  from assms obtain p where p: "p \<in> set (List.product decimal_digits (List.product decimal_digits decimal_digits))"
    and c: "c = (\<lambda>(x, y, z). ustr ''000'' @ [x, y, z]) p"
    unfolding filler_codes_def set_map by blast
  obtain x y z where xyz: "p = (x, y, z)" by (metis prod_cases3)
  from p xyz have "x \<in> set decimal_digits" "y \<in> set decimal_digits" "z \<in> set decimal_digits"
    by (simp_all only: set_product mem_Sigma_iff)
  then show ?thesis using that c xyz by (simp add: decimal_digits_digit)
qed

lemma filler_codes_valid: "c \<in> set filler_codes \<Longrightarrow> length c = 6 \<and> isdigit demo_lib c"
  by (erule filler_codes_form) (auto simp: isdigit_def ustr_def ord_def demo_decimal_def)

lemma filler_codes_neq: "ustr ''600519'' \<notin> set filler_codes"
proof
  assume "ustr ''600519'' \<in> set filler_codes"
  then show False by (rule filler_codes_form) (simp add: ustr_def ord_def)
qed

lemma run_reports_snoc:
  "run_reports cfg lib s (reqs @ [(now, w, c)]) =
     snd (get_full_stock_report cfg lib w now (run_reports cfg lib s reqs) c)"
  by (induction reqs arbitrary: s) auto

lemma update_fresh_key: "k \<notin> fst ` set al \<Longrightarrow> AList.update k v al = al @ [(k, v)]"
  by (induction al) auto

lemma sweep_all_fresh:
  assumes "\<forall>p \<in> set (cache s). \<not> is_cache_expired cfg now (snd (snd p))"
  shows "clear_expired_cache cfg now s =
           (if timedelta_seconds (now - last_clear_cache s) > CACHE_TTL cfg
            then s\<lparr>last_clear_cache := now\<rparr> else s)"
proof -
  have "filter (\<lambda>(key, (data, cache_time)). is_cache_expired cfg now cache_time) (cache s) = []"
    using assms by (auto simp: filter_empty_conv)
  then show ?thesis by (simp add: clear_expired_cache_def)
qed

lemma info_only_get_stock_info_miss:
  "map_of lru c = None \<Longrightarrow>
   get_stock_info cfg provider_info_only lru c =
     (Inr demo_dict, take (nat (MAX_CACHE_SIZE cfg)) ((c, demo_dict) # lru),
      [Stock_individual_info_em c])"
  by (simp add: demo_get_stock_info_miss demo_dict_def)

lemma not_expired_now: "\<not> is_cache_expired settings t t"
  by (simp add: is_cache_expired_def timedelta_seconds_def settings_def)

lemma info_only_step:
  assumes fresh: "\<forall>p \<in> set (cache s). \<not> is_cache_expired settings t (snd (snd p))"
    and sweep: "last_clear_cache s = t \<or> timedelta_seconds (t - last_clear_cache s) > 300"
    and valid: "length c = 6" "isdigit lib c"
    and newc: "get_cache_key c \<notin> fst ` set (cache s)"
    and newl: "c \<notin> fst ` set (info_lru s)"
    and room: "length (cache s) < 1000" "length (info_lru s) < 1000"
  shows "cache (snd (get_full_stock_report settings lib provider_info_only t s c)) =
           cache s @ [(get_cache_key c, (demo_report c t, t))]"
    and "info_lru (snd (get_full_stock_report settings lib provider_info_only t s c)) =
           (c, demo_dict) # info_lru s"
    and "last_clear_cache (snd (get_full_stock_report settings lib provider_info_only t s c)) = t"
proof -
  let ?s' = "clear_expired_cache settings t s"
  have miss: "no_fresh_entry settings t s c"
    using newc by (simp add: no_fresh_entry_def map_of_eq_None_iff [THEN iffD2])
  have sw: "?s' = (if timedelta_seconds (t - last_clear_cache s) > 300
                   then s\<lparr>last_clear_cache := t\<rparr> else s)"
    using sweep_all_fresh [OF fresh] by (simp add: settings_def)
  have c': "cache ?s' = cache s" and l': "info_lru ?s' = info_lru s"
    and lc': "last_clear_cache ?s' = t"
    using sweep by (auto simp: sw)
  have lm: "map_of (info_lru ?s') c = None"
    using newl by (simp add: l' map_of_eq_None_iff [THEN iffD2])
  have max: "0 < MAX_CACHE_SIZE settings" by (simp add: settings_def)
  have rt: "report_try settings lib provider_info_only t ?s' c =
     (Inr (demo_report c t),
      ?s'\<lparr>info_lru := take 1000 ((c, demo_dict) # info_lru s),
           provider_calls := provider_calls ?s' @ [Stock_individual_info_em c] @ demo_calls c,
           cache := AList.update (get_cache_key c) (demo_report c t, t) (cache s)\<rparr>)"
  proof -
    have lm0: "map_of (info_lru s) c = None"
      using lm by (simp add: l')
    have len: "int (length (cache s)) < MAX_CACHE_SIZE settings"
      using room(1) by (simp add: settings_def)
    have n: "nat (MAX_CACHE_SIZE settings) = 1000"
      by (simp add: settings_def)
    show ?thesis
      using info_only_report_try [OF valid disjI1 [OF lm] max, where now = t]
      by (simp add: l' c' info_only_get_stock_info_miss [OF lm0] len n)
  qed
  have full: "get_full_stock_report settings lib provider_info_only t s c =
     (Inr (demo_report c t),
      ?s'\<lparr>info_lru := take 1000 ((c, demo_dict) # info_lru s),
           provider_calls := provider_calls ?s' @ [Stock_individual_info_em c] @ demo_calls c,
           cache := AList.update (get_cache_key c) (demo_report c t, t) (cache s)\<rparr>)"
    by (simp add: get_full_miss [OF miss] fetch_report_def rt)
  show "cache (snd (get_full_stock_report settings lib provider_info_only t s c)) =
           cache s @ [(get_cache_key c, (demo_report c t, t))]"
    using newc by (simp add: full update_fresh_key)
  show "info_lru (snd (get_full_stock_report settings lib provider_info_only t s c)) =
           (c, demo_dict) # info_lru s"
    using room(2) by (simp add: full)
  show "last_clear_cache (snd (get_full_stock_report settings lib provider_info_only t s c)) = t"
    by (simp add: full lc')
qed

lemma cached_at_keys: "fst ` set (cached_at t cs) = get_cache_key ` set cs"
  by (force simp: cached_at_def)

lemma memo_of_keys: "fst ` set (memo_of cs) = set cs"
  by (force simp: memo_of_def)

lemma cached_at_fresh: "p \<in> set (cached_at t cs) \<Longrightarrow> \<not> is_cache_expired settings t (snd (snd p))"
  by (auto simp: cached_at_def not_expired_now)

lemma fill_run:
  assumes "\<forall>p \<in> set (cache s0). \<not> is_cache_expired settings t (snd (snd p))"
    and "last_clear_cache s0 = t \<or> timedelta_seconds (t - last_clear_cache s0) > 300"
    and "\<forall>c \<in> set cs. length c = 6 \<and> isdigit lib c"
    and "distinct cs"
    and "\<forall>c \<in> set cs. get_cache_key c \<notin> fst ` set (cache s0)"
    and "\<forall>c \<in> set cs. c \<notin> fst ` set (info_lru s0)"
    and "length (cache s0) + length cs \<le> 1000"
    and "length (info_lru s0) + length cs \<le> 1000"
  shows "cache (run_reports settings lib s0 (requests_at t cs)) = cache s0 @ cached_at t cs \<and>
         info_lru (run_reports settings lib s0 (requests_at t cs)) = memo_of cs @ info_lru s0 \<and>
         (cs \<noteq> [] \<longrightarrow> last_clear_cache (run_reports settings lib s0 (requests_at t cs)) = t)"
  using assms
proof (induction cs rule: rev_induct)
  case Nil
  then show ?case by (simp add: requests_at_def cached_at_def memo_of_def)
next
  case (snoc c cs)
  let ?s = "run_reports settings lib s0 (requests_at t cs)"
  have ih: "cache ?s = cache s0 @ cached_at t cs"
    "info_lru ?s = memo_of cs @ info_lru s0"
    "cs \<noteq> [] \<longrightarrow> last_clear_cache ?s = t"
    using snoc.IH snoc.prems by auto
  have s0: "cs = [] \<Longrightarrow> ?s = s0" by (simp add: requests_at_def)
  have fresh: "\<forall>p \<in> set (cache ?s). \<not> is_cache_expired settings t (snd (snd p))"
    using snoc.prems(1) cached_at_fresh by (auto simp: ih(1))
  have sweep: "last_clear_cache ?s = t \<or> timedelta_seconds (t - last_clear_cache ?s) > 300"
    using snoc.prems(2) ih(3) s0 by (cases "cs = []") auto
  have valid: "length c = 6" "isdigit lib c" using snoc.prems(3) by auto
  have notin: "c \<notin> set cs" using snoc.prems(4) by simp
  have newc: "get_cache_key c \<notin> fst ` set (cache ?s)"
    using snoc.prems(5) notin by (auto simp: ih(1) image_Un cached_at_keys dest: get_cache_key_inj)
  have newl: "c \<notin> fst ` set (info_lru ?s)"
    using snoc.prems(6) notin by (auto simp: ih(2) image_Un memo_of_keys)
  have room: "length (cache ?s) < 1000" "length (info_lru ?s) < 1000"
    using snoc.prems(7,8) by (simp_all add: ih cached_at_def memo_of_def)
  have run: "run_reports settings lib s0 (requests_at t (cs @ [c])) =
             snd (get_full_stock_report settings lib provider_info_only t ?s c)"
    by (simp add: requests_at_def run_reports_snoc)
  show ?case
    using info_only_step [OF fresh sweep valid newc newl room]
    by (simp add: run ih cached_at_def memo_of_def)
qed

subsection \<open>The full cache and the aged cache\<close>

lemma isdigit_600519': "length (ustr ''600519'') = 6 \<and> isdigit demo_lib (ustr ''600519'')"
  by (simp add: isdigit_600519)

lemma key_600519_filler: "get_cache_key (ustr ''600519'') \<notin> get_cache_key ` set (take n filler_codes)"
  using filler_codes_neq by (auto dest: get_cache_key_inj in_set_takeD)

lemma busy_service_fields:
  "cache busy_service = cached_at 0 filler_codes"
  "info_lru busy_service = memo_of filler_codes"
  "last_clear_cache busy_service = 0"
proof -
  have ne: "filler_codes \<noteq> []" using filler_codes_length by auto
  have "cache busy_service = cache (init_StockService 0) @ cached_at 0 filler_codes \<and>
        info_lru busy_service = memo_of filler_codes @ info_lru (init_StockService 0) \<and>
        (filler_codes \<noteq> [] \<longrightarrow> last_clear_cache busy_service = 0)"
    unfolding busy_service_def
    by (rule fill_run)
       (simp_all add: init_StockService_def filler_codes_valid filler_codes_distinct filler_codes_length)
  then show "cache busy_service = cached_at 0 filler_codes"
    "info_lru busy_service = memo_of filler_codes"
    "last_clear_cache busy_service = 0"
    using ne by (simp_all add: init_StockService_def)
qed

lemma info_only_full:
  assumes "length c = 6" "isdigit lib c" and "no_fresh_entry cfg t s c"
    and "map_of (info_lru s) c = None \<or> map_of (info_lru s) c = Some demo_dict"
    and "0 < MAX_CACHE_SIZE cfg"
  shows "fst (get_full_stock_report cfg lib provider_info_only t s c) = Inr (demo_report c t)"
    and "cache (snd (get_full_stock_report cfg lib provider_info_only t s c)) =
          (if int (length (cache (clear_expired_cache cfg t s))) < MAX_CACHE_SIZE cfg
           then AList.update (get_cache_key c) (demo_report c t, t) (cache (clear_expired_cache cfg t s))
           else cache (clear_expired_cache cfg t s))"
    and "info_lru (snd (get_full_stock_report cfg lib provider_info_only t s c)) =
          fst (snd (get_stock_info cfg provider_info_only (info_lru s) c))"
    and "provider_calls (snd (get_full_stock_report cfg lib provider_info_only t s c)) =
          provider_calls s @ snd (snd (get_stock_info cfg provider_info_only (info_lru s) c)) @ demo_calls c"
    and "last_clear_cache (snd (get_full_stock_report cfg lib provider_info_only t s c)) =
          last_clear_cache (clear_expired_cache cfg t s)"
proof -
  have l: "map_of (info_lru (clear_expired_cache cfg t s)) c = None \<or>
           map_of (info_lru (clear_expired_cache cfg t s)) c = Some demo_dict"
    using assms(4) by simp
  note rt = info_only_report_try [OF assms(1,2) l assms(5), where now = t]
  show "fst (get_full_stock_report cfg lib provider_info_only t s c) = Inr (demo_report c t)"
    by (simp add: get_full_miss [OF assms(3)] fetch_report_def rt)
  show "cache (snd (get_full_stock_report cfg lib provider_info_only t s c)) =
          (if int (length (cache (clear_expired_cache cfg t s))) < MAX_CACHE_SIZE cfg
           then AList.update (get_cache_key c) (demo_report c t, t) (cache (clear_expired_cache cfg t s))
           else cache (clear_expired_cache cfg t s))"
    by (simp add: get_full_miss [OF assms(3)] fetch_report_def rt)
  show "info_lru (snd (get_full_stock_report cfg lib provider_info_only t s c)) =
          fst (snd (get_stock_info cfg provider_info_only (info_lru s) c))"
    by (simp add: get_full_miss [OF assms(3)] fetch_report_def rt)
  show "provider_calls (snd (get_full_stock_report cfg lib provider_info_only t s c)) =
          provider_calls s @ snd (snd (get_stock_info cfg provider_info_only (info_lru s) c)) @ demo_calls c"
    by (simp add: get_full_miss [OF assms(3)] fetch_report_def rt)
  show "last_clear_cache (snd (get_full_stock_report cfg lib provider_info_only t s c)) =
          last_clear_cache (clear_expired_cache cfg t s)"
    by (simp add: get_full_miss [OF assms(3)] fetch_report_def rt)
qed

lemma max_settings: "0 < MAX_CACHE_SIZE settings"
  by (simp add: settings_def)

subsection \<open>A ticker in fullwidth digits\<close>

text \<open>
  The six fullwidth digits are six characters, decimal digits for the pattern and
  digits for \<open>str.isdigit\<close>, and they are not among \<open>0\<close> to \<open>9\<close>. A fresh service asked
  for this ticker builds a report, stores it and makes five provider calls.
\<close>

lemma fullwidth_code_facts:
  "length fullwidth_code = 6"
  "isdigit demo_lib fullwidth_code"
  "query_regex demo_lib fullwidth_code"
  "\<not> spec_six_digits fullwidth_code"
  "fullwidth_code \<noteq> []"
  by (simp_all add: fullwidth_code_def isdigit_def query_regex_iff demo_decimal_def
        spec_six_digits_def ustr_def ord_def)

lemma fullwidth_first_call:
  "fst (get_full_stock_report settings demo_lib provider_info_only 0 (init_StockService 0)
          fullwidth_code) = Inr (demo_report fullwidth_code 0)"
  "cache (snd (get_full_stock_report settings demo_lib provider_info_only 0 (init_StockService 0)
          fullwidth_code)) = [(get_cache_key fullwidth_code, (demo_report fullwidth_code 0, 0))]"
  "provider_calls (snd (get_full_stock_report settings demo_lib provider_info_only 0
          (init_StockService 0) fullwidth_code)) =
     Stock_individual_info_em fullwidth_code # demo_calls fullwidth_code"
proof -
  have lm: "map_of (info_lru (init_StockService 0)) fullwidth_code = None"
    by (simp add: init_StockService_def)
  have sw: "clear_expired_cache settings 0 (init_StockService 0) = init_StockService 0"
    by (simp add: clear_expired_cache_def init_StockService_def timedelta_seconds_def settings_def)
  note f = info_only_full [OF fullwidth_code_facts(1,2) init_no_fresh [of settings 0 0]
      disjI1 [OF lm] max_settings]
  show "fst (get_full_stock_report settings demo_lib provider_info_only 0 (init_StockService 0)
          fullwidth_code) = Inr (demo_report fullwidth_code 0)"
    by (rule f(1))
  show "cache (snd (get_full_stock_report settings demo_lib provider_info_only 0 (init_StockService 0)
          fullwidth_code)) = [(get_cache_key fullwidth_code, (demo_report fullwidth_code 0, 0))]"
    using f(2) by (simp add: sw) (simp add: init_StockService_def settings_def)
  show "provider_calls (snd (get_full_stock_report settings demo_lib provider_info_only 0
          (init_StockService 0) fullwidth_code)) =
     Stock_individual_info_em fullwidth_code # demo_calls fullwidth_code"
    using f(4) lm
    by (simp add: info_only_get_stock_info_miss) (simp add: init_StockService_def)
qed

text \<open>
  The validator of the model is wider than the pattern of the endpoint: six
  superscript twos are digits for \<open>str.isdigit\<close> and pass the validator, and the
  pattern does not match them.
\<close>

lemma validator_wider_than_pattern:
  "validate_stock_code demo_lib [0xB2, 0xB2, 0xB2, 0xB2, 0xB2, 0xB2] =
     Inr [0xB2, 0xB2, 0xB2, 0xB2, 0xB2, 0xB2] \<and>
   \<not> query_regex demo_lib [0xB2, 0xB2, 0xB2, 0xB2, 0xB2, 0xB2]"
  by (simp add: validate_stock_code_def isdigit_def query_regex_iff demo_decimal_def)


lemma busy_miss: "no_fresh_entry settings t busy_service (ustr ''600519'')"
proof -
  have "get_cache_key (ustr ''600519'') \<notin> fst ` set (cache busy_service)"
    using key_600519_filler [of 1000] by (simp add: busy_service_fields cached_at_keys filler_codes_length)
  then show ?thesis by (simp add: no_fresh_entry_def map_of_eq_None_iff [THEN iffD2])
qed

lemma busy_lru: "map_of (info_lru busy_service) (ustr ''600519'') = None"
  using filler_codes_neq by (simp add: busy_service_fields map_of_eq_None_iff memo_of_keys)

lemma busy_sweep_0: "clear_expired_cache settings 0 busy_service = busy_service"
  by (rule sweep_not_due) (simp add: busy_service_fields timedelta_seconds_def settings_def)

lemma busy_full: "\<not> int (length (cache busy_service)) < MAX_CACHE_SIZE settings"
  by (simp add: busy_service_fields cached_at_def filler_codes_length settings_def)

lemma busy_service_1_fields:
  "cache busy_service_1 = cache busy_service"
  "info_lru busy_service_1 = (ustr ''600519'', demo_dict) # take 999 (info_lru busy_service)"
  "last_clear_cache busy_service_1 = 0"
  "fst (get_full_stock_report settings demo_lib provider_info_only 0 busy_service (ustr ''600519'')) =
     Inr (demo_report (ustr ''600519'') 0)"
  using info_only_full [OF isdigit_600519' [THEN conjunct1] isdigit_600519' [THEN conjunct2]
      busy_miss [of 0] disjI1 [OF busy_lru] max_settings]
  by (simp_all add: busy_service_1_def busy_sweep_0 busy_full info_only_get_stock_info_miss [OF busy_lru]
      busy_service_fields(3)) (simp add: settings_def)

lemma busy_1_miss: "no_fresh_entry settings t busy_service_1 (ustr ''600519'')"
  using busy_miss [of t] by (simp add: no_fresh_entry_def busy_service_1_fields)

lemma busy_1_lru: "map_of (info_lru busy_service_1) (ustr ''600519'') = Some demo_dict"
  by (simp add: busy_service_1_fields)

lemma get_stock_info_hit:
  "map_of lru c = Some d \<Longrightarrow> get_stock_info cfg w lru c = (Inr d, (c, d) # AList.delete c lru, [])"
  by (simp add: get_stock_info_def)

text \<open>
  C3 as stated fails when the cache is full. After a thousand requests for other
  tickers at time 0, the request for 600519 succeeds but is not stored; the same
  request one second later builds another report and calls the provider again.
\<close>

theorem cached_report_counterexample:
  "fst (get_full_stock_report settings demo_lib provider_info_only 0 busy_service (ustr ''600519'')) =
     Inr (demo_report (ustr ''600519'') 0) \<and>
   busy_service_1 =
     snd (get_full_stock_report settings demo_lib provider_info_only 0 busy_service (ustr ''600519'')) \<and>
   fst (get_full_stock_report settings demo_lib provider_info_only 1000000 busy_service_1 (ustr ''600519'')) =
     Inr (demo_report (ustr ''600519'') 1000000) \<and>
   demo_report (ustr ''600519'') 1000000 \<noteq> demo_report (ustr ''600519'') 0 \<and>
   provider_calls (snd (get_full_stock_report settings demo_lib provider_info_only 1000000
       busy_service_1 (ustr ''600519''))) = provider_calls busy_service_1 @ demo_calls (ustr ''600519'') \<and>
   demo_calls (ustr ''600519'') \<noteq> []"
  using info_only_full [OF isdigit_600519' [THEN conjunct1] isdigit_600519' [THEN conjunct2]
      busy_1_miss [of 1000000] disjI2 [OF busy_1_lru] max_settings]
  by (simp add: busy_service_1_fields(4) get_stock_info_hit [OF busy_1_lru])
     (simp add: busy_service_1_def demo_report_def demo_calls_def)

lemma demo_state_100_fields:
  "cache demo_state_100 = [(get_cache_key (ustr ''600519''), (demo_report (ustr ''600519'') 100000000, 100000000))]"
  "info_lru demo_state_100 = [(ustr ''600519'', demo_dict)]"
  "last_clear_cache demo_state_100 = 0"
proof -
  have sw: "clear_expired_cache settings 100000000 (init_StockService 0) = init_StockService 0"
    by (rule sweep_not_due) (simp add: init_StockService_def timedelta_seconds_def settings_def)
  have lm: "map_of (info_lru (init_StockService 0)) (ustr ''600519'') = None"
    by (simp add: init_StockService_def)
  note f = info_only_full [OF isdigit_600519' [THEN conjunct1] isdigit_600519' [THEN conjunct2]
      init_no_fresh [of settings 100000000 0] disjI1 [OF lm] max_settings]
  show "cache demo_state_100 = [(get_cache_key (ustr ''600519''), (demo_report (ustr ''600519'') 100000000, 100000000))]"
    using f(2) by (simp add: demo_state_100_def sw) (simp add: init_StockService_def settings_def)
  show "info_lru demo_state_100 = [(ustr ''600519'', demo_dict)]"
    using f(3) by (simp add: demo_state_100_def info_only_get_stock_info_miss [OF lm])
      (simp add: init_StockService_def settings_def)
  show "last_clear_cache demo_state_100 = 0"
    using f(5) by (simp add: demo_state_100_def sw) (simp add: init_StockService_def)
qed

lemma take_999_length: "length (take 999 filler_codes) = 999"
  by (simp add: filler_codes_length)

lemma aged_service_fields:
  "cache aged_service =
     (get_cache_key (ustr ''600519''), (demo_report (ustr ''600519'') 100000000, 100000000))
       # cached_at 301000000 (take 999 filler_codes)"
  "info_lru aged_service = memo_of (take 999 filler_codes) @ [(ustr ''600519'', demo_dict)]"
  "last_clear_cache aged_service = 301000000"
proof -
  have ne: "take 999 filler_codes \<noteq> []" using take_999_length by auto
  have run: "aged_service = run_reports settings demo_lib demo_state_100
                              (requests_at 301000000 (take 999 filler_codes))"
    by (simp add: aged_service_def demo_state_100_def)
  have neq: "\<And>c. c \<in> set (take 999 filler_codes) \<Longrightarrow> c \<noteq> ustr ''600519''"
    using filler_codes_neq by (auto dest: in_set_takeD)
  have "cache aged_service = cache demo_state_100 @ cached_at 301000000 (take 999 filler_codes) \<and>
        info_lru aged_service = memo_of (take 999 filler_codes) @ info_lru demo_state_100 \<and>
        (take 999 filler_codes \<noteq> [] \<longrightarrow> last_clear_cache aged_service = 301000000)"
    unfolding run
  proof (rule fill_run)
    show "\<forall>p\<in>set (cache demo_state_100). \<not> is_cache_expired settings 301000000 (snd (snd p))"
      by (simp add: demo_state_100_fields is_cache_expired_def timedelta_seconds_def settings_def)
    show "last_clear_cache demo_state_100 = 301000000 \<or>
          300 < timedelta_seconds (301000000 - last_clear_cache demo_state_100)"
      by (simp add: demo_state_100_fields timedelta_seconds_def)
    show "\<forall>c\<in>set (take 999 filler_codes). length c = 6 \<and> isdigit demo_lib c"
      by (auto dest: in_set_takeD simp: filler_codes_valid)
    show "distinct (take 999 filler_codes)"
      by (simp add: filler_codes_distinct)
    show "\<forall>c\<in>set (take 999 filler_codes). get_cache_key c \<notin> fst ` set (cache demo_state_100)"
      using neq by (auto simp: demo_state_100_fields dest: get_cache_key_inj)
    show "\<forall>c\<in>set (take 999 filler_codes). c \<notin> fst ` set (info_lru demo_state_100)"
      using neq by (auto simp: demo_state_100_fields)
    show "length (cache demo_state_100) + length (take 999 filler_codes) \<le> 1000"
      by (simp add: demo_state_100_fields take_999_length)
    show "length (info_lru demo_state_100) + length (take 999 filler_codes) \<le> 1000"
      by (simp add: demo_state_100_fields take_999_length)
  qed
  then show "cache aged_service =
     (get_cache_key (ustr ''600519''), (demo_report (ustr ''600519'') 100000000, 100000000))
       # cached_at 301000000 (take 999 filler_codes)"
    "info_lru aged_service = memo_of (take 999 filler_codes) @ [(ustr ''600519'', demo_dict)]"
    "last_clear_cache aged_service = 301000000"
    using ne by (simp_all add: demo_state_100_fields)
qed

lemma aged_entry:
  "map_of (cache aged_service) (get_cache_key (ustr ''600519'')) =
     Some (demo_report (ustr ''600519'') 100000000, 100000000)"
  by (simp add: aged_service_fields)

lemma aged_expired: "is_cache_expired settings 500000000 100000000"
  by (simp add: is_cache_expired_def timedelta_seconds_def settings_def)

lemma aged_lru: "map_of (info_lru aged_service) (ustr ''600519'') = Some demo_dict"
proof -
  have "ustr ''600519'' \<notin> fst ` set (memo_of (take 999 filler_codes))"
    using filler_codes_neq by (auto simp: memo_of_keys dest: in_set_takeD)
  then have "map_of (memo_of (take 999 filler_codes)) (ustr ''600519'') = None"
    by (simp add: map_of_eq_None_iff)
  then show ?thesis by (simp add: aged_service_fields map_add_def)
qed

text \<open>
  C2 as stated fails when the cache is full and no sweep is due: the expired entry
  of 600519 (400 s old) is refetched with success, but the fresh report is not
  stored and the old entry stays.
\<close>

theorem expired_entry_counterexample:
  "map_of (cache aged_service) (get_cache_key (ustr ''600519'')) =
     Some (demo_report (ustr ''600519'') 100000000, 100000000) \<and>
   CACHE_TTL settings * 1000000 < 500000000 - 100000000 \<and>
   fst (get_full_stock_report settings demo_lib provider_info_only 500000000 aged_service (ustr ''600519'')) =
     Inr (demo_report (ustr ''600519'') 500000000) \<and>
   map_of (cache (snd (get_full_stock_report settings demo_lib provider_info_only 500000000
                         aged_service (ustr ''600519'')))) (get_cache_key (ustr ''600519'')) =
     Some (demo_report (ustr ''600519'') 100000000, 100000000) \<and>
   demo_report (ustr ''600519'') 100000000 \<noteq> demo_report (ustr ''600519'') 500000000"
proof -
  have miss: "no_fresh_entry settings 500000000 aged_service (ustr ''600519'')"
    by (simp add: no_fresh_entry_def aged_entry aged_expired)
  have sw: "clear_expired_cache settings 500000000 aged_service = aged_service"
    by (rule sweep_not_due) (simp add: aged_service_fields timedelta_seconds_def settings_def)
  have full: "\<not> int (length (cache aged_service)) < MAX_CACHE_SIZE settings"
    by (simp add: aged_service_fields cached_at_def filler_codes_length settings_def)
  note f = info_only_full [OF isdigit_600519' [THEN conjunct1] isdigit_600519' [THEN conjunct2]
      miss disjI2 [OF aged_lru] max_settings]
  have "cache (snd (get_full_stock_report settings demo_lib provider_info_only 500000000
                         aged_service (ustr ''600519''))) = cache aged_service"
    using f(2) by (simp add: sw full)
  then show ?thesis
    using f(1) by (simp add: aged_entry) (simp add: settings_def demo_report_def)
qed

subsection \<open>Expired entries\<close>

text \<open>
  C2, amended. An entry whose age is at least \<open>CACHE_TTL + 1\<close> whole seconds and less
  than a day is not served: the request is a fetch. When the fetch succeeds the
  report is new (its \<open>update_time\<close> is the time of the request), the provider was
  called, and the entry of the ticker becomes (report, time of the request) if the
  cache, after the sweep, holds fewer than \<open>MAX_CACHE_SIZE\<close> entries; otherwise the
  cache is left as the sweep left it.
\<close>

theorem expired_entry_refetched:
  assumes entry: "map_of (cache s) (get_cache_key c) = Some (r0, t0)"
    and past: "t0 \<le> now"
    and age_lo: "(CACHE_TTL cfg + 1) * 1000000 \<le> now - t0"
    and age_hi: "now - t0 < 86400000000"
  shows "get_full_stock_report cfg lib w now s c = fetch_report cfg lib w now s c \<and>
         (\<forall>r s'. fetch_report cfg lib w now s c = (Inr r, s') \<longrightarrow>
            code r = c \<and> update_time r = now \<and>
            (\<exists>cs. cs \<noteq> [] \<and> provider_calls s' = provider_calls s @ cs) \<and>
            (if int (length (cache (clear_expired_cache cfg now s))) < MAX_CACHE_SIZE cfg
             then map_of (cache s') (get_cache_key c) = Some (r, now)
             else cache s' = cache (clear_expired_cache cfg now s)))"
proof -
  have "is_cache_expired cfg now t0"
  proof (rule expired_after_ttl)
    show "(CACHE_TTL cfg + 1) * 1000000 \<le> now - t0" by (rule age_lo)
    show "now - t0 < 86400000000" by (rule age_hi)
    show "0 \<le> now - t0" using past by simp
  qed
  then have miss: "no_fresh_entry cfg now s c"
    by (simp add: no_fresh_entry_def entry)
  have rest: "code r = c \<and> update_time r = now \<and>
        (\<exists>cs. cs \<noteq> [] \<and> provider_calls s' = provider_calls s @ cs) \<and>
        (if int (length (cache (clear_expired_cache cfg now s))) < MAX_CACHE_SIZE cfg
         then map_of (cache s') (get_cache_key c) = Some (r, now)
         else cache s' = cache (clear_expired_cache cfg now s))"
    if f: "fetch_report cfg lib w now s c = (Inr r, s')" for r s'
  proof -
    have "code r = c \<and> update_time r = now"
      using report_try_code_name [OF fetch_report_Inr [OF f]] by simp
    moreover have "\<exists>cs. cs \<noteq> [] \<and> provider_calls s' = provider_calls s @ cs"
      using fetch_report_state [OF f] by auto
    moreover have "if int (length (cache (clear_expired_cache cfg now s))) < MAX_CACHE_SIZE cfg
         then map_of (cache s') (get_cache_key c) = Some (r, now)
         else cache s' = cache (clear_expired_cache cfg now s)"
      using fetch_report_state [OF f] by (simp add: update_conv')
    ultimately show ?thesis by blast
  qed
  have "get_full_stock_report cfg lib w now s c = fetch_report cfg lib w now s c"
    using miss by (rule get_full_miss)
  with rest show ?thesis by blast
qed

lemma demo_state_1_sweep_301:
  "clear_expired_cache settings 301000000 demo_state_1 =
     demo_state_1\<lparr>cache := [], last_clear_cache := 301000000\<rparr>"
  by (simp add: clear_expired_cache_def demo_state_1_def is_cache_expired_def timedelta_seconds_def
      settings_def)

lemma demo_state_1_refetch:
  "fst (fetch_report settings demo_lib provider_info_only 301000000 demo_state_1 (ustr ''600519'')) =
     Inr (demo_report (ustr ''600519'') 301000000)"
proof -
  have e: "is_cache_expired settings 301000000 0"
    by (simp add: is_cache_expired_def timedelta_seconds_def settings_def)
  have miss: "no_fresh_entry settings 301000000 demo_state_1 (ustr ''600519'')"
    by (simp add: no_fresh_entry_def demo_state_1_def e)
  have lm: "map_of (info_lru demo_state_1) (ustr ''600519'') = Some demo_dict"
    by (simp add: demo_state_1_def)
  show ?thesis
    using info_only_full(1) [OF isdigit_600519' [THEN conjunct1] isdigit_600519' [THEN conjunct2]
      miss disjI2 [OF lm] max_settings]
    by (simp add: get_full_miss [OF miss])
qed

theorem expired_entry_refetched_witness:
  "map_of (cache demo_state_1) (get_cache_key (ustr ''600519'')) = Some (demo_report (ustr ''600519'') 0, 0) \<and>
   (0::int) \<le> 301000000 \<and>
   (CACHE_TTL settings + 1) * 1000000 \<le> 301000000 - 0 \<and>
   (301000000::int) - 0 < 86400000000 \<and>
   get_full_stock_report settings demo_lib provider_info_only 301000000 demo_state_1 (ustr ''600519'') =
     fetch_report settings demo_lib provider_info_only 301000000 demo_state_1 (ustr ''600519'') \<and>
   fst (fetch_report settings demo_lib provider_info_only 301000000 demo_state_1 (ustr ''600519'')) =
     Inr (demo_report (ustr ''600519'') 301000000) \<and>
   int (length (cache (clear_expired_cache settings 301000000 demo_state_1))) < MAX_CACHE_SIZE settings \<and>
   map_of (cache (snd (fetch_report settings demo_lib provider_info_only 301000000 demo_state_1
                         (ustr ''600519'')))) (get_cache_key (ustr ''600519'')) =
     Some (demo_report (ustr ''600519'') 301000000, 301000000)"
proof -
  have e: "map_of (cache demo_state_1) (get_cache_key (ustr ''600519'')) = Some (demo_report (ustr ''600519'') 0, 0)"
    by (simp add: demo_state_1_def)
  have lo: "(CACHE_TTL settings + 1) * 1000000 \<le> 301000000 - 0"
    by (simp add: settings_def)
  have room: "int (length (cache (clear_expired_cache settings 301000000 demo_state_1)))
                < MAX_CACHE_SIZE settings"
    by (simp add: demo_state_1_sweep_301) (simp add: settings_def)
  have f: "fetch_report settings demo_lib provider_info_only 301000000 demo_state_1 (ustr ''600519'') =
     (Inr (demo_report (ustr ''600519'') 301000000),
      snd (fetch_report settings demo_lib provider_info_only 301000000 demo_state_1 (ustr ''600519'')))"
    using demo_state_1_refetch by (simp add: prod_eq_iff)
  show ?thesis
    using expired_entry_refetched [where s = demo_state_1 and c = "ustr ''600519''"
        and ?r0.0 = "demo_report (ustr ''600519'') 0" and ?t0.0 = 0 and now = 301000000 and cfg = settings
        and lib = demo_lib and w = provider_info_only] e lo room f demo_state_1_refetch
    by simp
qed

text \<open>
  What holds of the sweep: it changes the state only when its check finds more than
  \<open>CACHE_TTL\<close> seconds since the last sweep, and then, the keys being distinct as
  in a dictionary, it keeps exactly the entries that \<open>_is_cache_expired\<close> judges
  fresh, unchanged and in order.
\<close>

lemma sweep_only_after_ttl:
  assumes "clear_expired_cache cfg now s \<noteq> s" and "last_clear_cache s \<le> now"
  shows "CACHE_TTL cfg * 1000000 < now - last_clear_cache s"
proof -
  let ?d = "now - last_clear_cache s"
  have due: "CACHE_TTL cfg < timedelta_seconds ?d"
    using assms(1) by (auto simp: clear_expired_cache_def split: if_splits)
  have "0 \<le> ?d" using assms(2) by simp
  then have "?d mod 86400000000 \<le> ?d" by (simp add: zmod_le_nonneg_dividend)
  then have "(?d mod 86400000000) div 1000000 \<le> ?d div 1000000" by (rule zdiv_mono1) simp
  then have "CACHE_TTL cfg < ?d div 1000000" using due by (simp add: timedelta_seconds_def)
  then show ?thesis by linarith
qed

lemma sweep_cache_filter:
  assumes "distinct (map fst (cache s))"
    and "CACHE_TTL cfg < timedelta_seconds (now - last_clear_cache s)"
  shows "cache (clear_expired_cache cfg now s) =
           filter (\<lambda>p. \<not> is_cache_expired cfg now (snd (snd p))) (cache s)"
proof -
  let ?E = "\<lambda>p. is_cache_expired cfg now (snd (snd p))"
  have e: "(\<lambda>(key, (data, cache_time)). is_cache_expired cfg now cache_time) = ?E"
    by (auto simp: fun_eq_iff)
  have "fst p \<notin> set (map fst (filter ?E (cache s))) \<longleftrightarrow> \<not> ?E p" if "p \<in> set (cache s)" for p
  proof
    assume "fst p \<notin> set (map fst (filter ?E (cache s)))"
    then show "\<not> ?E p" using that by force
  next
    assume n: "\<not> ?E p"
    show "fst p \<notin> set (map fst (filter ?E (cache s)))"
    proof
      assume "fst p \<in> set (map fst (filter ?E (cache s)))"
      then obtain q where q: "q \<in> set (cache s)" "?E q" "fst q = fst p" by auto
      have "snd q = snd p"
        using eq_key_imp_eq_value [OF assms(1), of "fst p" "snd q" "snd p"] q that
        by (metis prod.collapse)
      then show False using q(2) n by simp
    qed
  qed
  then have "filter (\<lambda>p. fst p \<notin> set (map fst (filter ?E (cache s)))) (cache s) =
             filter (\<lambda>p. \<not> ?E p) (cache s)"
    by (intro filter_cong) auto
  then show ?thesis using assms(2) by (simp add: clear_expired_cache_def foldl_delete e)
qed

text \<open>
  C7, the expiry check after a day. \<open>_is_cache_expired\<close> reads \<open>.seconds\<close> of the age,
  which drops whole days: an entry that is one day and up to 300 s old counts as
  fresh. It is served from the cache, and a sweep at that time keeps it.
\<close>

theorem day_old_entry_served:
  assumes "cache s = [(get_cache_key c, (r, t0))]" and "0 \<le> d" and "d < 301000000"
  shows "get_full_stock_report settings lib w (t0 + 86400000000 + d) s c = (Inr r, s) \<and>
         cache (clear_expired_cache settings (t0 + 86400000000 + d) s) = cache s"
proof -
  have "timedelta_seconds (86400000000 + d) = timedelta_seconds d"
    by (rule timedelta_seconds_wrap)
  moreover have "timedelta_seconds d \<le> 300"
    using assms(2,3) by (simp add: timedelta_seconds_def)
  ultimately have ne: "\<not> is_cache_expired settings (t0 + 86400000000 + d) t0"
    by (simp add: is_cache_expired_def settings_def)
  have "get_full_stock_report settings lib w (t0 + 86400000000 + d) s c = (Inr r, s)"
    using ne by (intro get_full_hit [where t = t0]) (simp_all add: assms(1))
  moreover have "cache (clear_expired_cache settings (t0 + 86400000000 + d) s) = cache s"
    using ne by (simp add: clear_expired_cache_def assms(1))
  ultimately show ?thesis by simp
qed

theorem day_old_entry_served_witness:
  "cache demo_state_1 = [(get_cache_key (ustr ''600519''), (demo_report (ustr ''600519'') 0, 0))] \<and>
   (0::int) \<le> 10000000 \<and> (10000000::int) < 301000000 \<and>
   get_full_stock_report settings demo_lib provider_down 86410000000 demo_state_1 (ustr ''600519'') =
     (Inr (demo_report (ustr ''600519'') 0), demo_state_1) \<and>
   cache (clear_expired_cache settings 86410000000 demo_state_1) = cache demo_state_1"
  using day_old_entry_served [where s = demo_state_1 and c = "ustr ''600519''"
      and r = "demo_report (ustr ''600519'') 0" and ?t0.0 = 0 and d = 10000000 and lib = demo_lib
      and w = provider_down]
  by (simp add: demo_state_1_def)

section \<open>Invariants of the cache\<close>

lemma length_update_le: "length (AList.update k v al) \<le> Suc (length al)"
  by (induction al) auto

lemma step_cache_length:
  fixes cfg lib w now s c
  defines "s' \<equiv> snd (get_full_stock_report cfg lib w now s c)"
  shows "length (cache s') \<le> length (cache s) \<or>
         (int (length (cache s)) < MAX_CACHE_SIZE cfg \<and> length (cache s') = Suc (length (cache s)))"
proof (cases rule: get_full_cases [of cfg lib w now s c])
  case (hit r)
  then show ?thesis by (simp add: s'_def)
next
  case miss
  obtain res where f: "fetch_report cfg lib w now s c = (res, s')"
    using miss by (simp add: s'_def prod_eq_iff)
  let ?sw = "cache (clear_expired_cache cfg now s)"
  have sl: "length ?sw \<le> length (cache s)" by (rule sweep_length)
  have "cache s' = ?sw \<or>
        (int (length ?sw) < MAX_CACHE_SIZE cfg \<and> (\<exists>k v. cache s' = AList.update k v ?sw))"
    using fetch_report_state [OF f] by (cases res) (auto split: if_splits)
  then show ?thesis
  proof
    assume "cache s' = ?sw"
    then show ?thesis using sl by simp
  next
    assume a: "int (length ?sw) < MAX_CACHE_SIZE cfg \<and> (\<exists>k v. cache s' = AList.update k v ?sw)"
    then obtain k v where u: "cache s' = AList.update k v ?sw" by blast
    have "length (cache s') \<le> Suc (length ?sw)" by (simp add: u length_update_le)
    then show ?thesis using a sl by linarith
  qed
qed

lemma run_cache_bounded:
  "int (length (cache s)) \<le> MAX_CACHE_SIZE cfg \<Longrightarrow>
   int (length (cache (run_reports cfg lib s reqs))) \<le> MAX_CACHE_SIZE cfg"
proof (induction reqs arbitrary: s)
  case Nil
  then show ?case by simp
next
  case (Cons q reqs)
  obtain now w c where q: "q = (now, w, c)" by (metis prod_cases3)
  have "int (length (cache (snd (get_full_stock_report cfg lib w now s c)))) \<le> MAX_CACHE_SIZE cfg"
    using step_cache_length [of cfg lib w now s c] Cons.prems by linarith
  then show ?case using Cons.IH by (simp add: q)
qed

text \<open>
  C8, the size of the cache. With \<open>MAX_CACHE_SIZE\<close> not negative, after any sequence of
  requests to a fresh service the cache holds at most \<open>MAX_CACHE_SIZE\<close> entries. A
  request makes the cache longer only by one entry and only if it held fewer than
  \<open>MAX_CACHE_SIZE\<close> entries before; the sweep never makes it longer.
\<close>

theorem cache_size_bounded:
  assumes "0 \<le> MAX_CACHE_SIZE cfg"
  shows "int (length (cache (run_reports cfg lib (init_StockService t0) reqs))) \<le> MAX_CACHE_SIZE cfg \<and>
         (\<forall>w now s c.
            length (cache s) < length (cache (snd (get_full_stock_report cfg lib w now s c))) \<longrightarrow>
              int (length (cache s)) < MAX_CACHE_SIZE cfg \<and>
              length (cache (snd (get_full_stock_report cfg lib w now s c))) = Suc (length (cache s))) \<and>
         (\<forall>now s. length (cache (clear_expired_cache cfg now s)) \<le> length (cache s))"
proof -
  have "int (length (cache (init_StockService t0))) \<le> MAX_CACHE_SIZE cfg"
    using assms by (simp add: init_StockService_def)
  then have "int (length (cache (run_reports cfg lib (init_StockService t0) reqs))) \<le> MAX_CACHE_SIZE cfg"
    by (rule run_cache_bounded)
  moreover have "int (length (cache s)) < MAX_CACHE_SIZE cfg \<and>
              length (cache (snd (get_full_stock_report cfg lib w now s c))) = Suc (length (cache s))"
    if "length (cache s) < length (cache (snd (get_full_stock_report cfg lib w now s c)))"
    for w now s c
    using step_cache_length [of cfg lib w now s c] that by linarith
  ultimately show ?thesis using sweep_length by blast
qed

theorem cache_size_bounded_witness:
  "0 \<le> MAX_CACHE_SIZE settings \<and>
   int (length (cache (run_reports settings demo_lib (init_StockService 0)
                          [(0, provider_info_only, (ustr ''600519''))]))) \<le> MAX_CACHE_SIZE settings \<and>
   length (cache (init_StockService 0)) <
     length (cache (snd (get_full_stock_report settings demo_lib provider_info_only 0
                           (init_StockService 0) (ustr ''600519'')))) \<and>
   int (length (cache (init_StockService 0))) < MAX_CACHE_SIZE settings \<and>
   length (cache (snd (get_full_stock_report settings demo_lib provider_info_only 0
                         (init_StockService 0) (ustr ''600519'')))) = Suc (length (cache (init_StockService 0))) \<and>
   length (cache (clear_expired_cache settings 301000000 demo_state_1)) \<le> length (cache demo_state_1)"
proof -
  have g: "length (cache (init_StockService 0)) <
     length (cache (snd (get_full_stock_report settings demo_lib provider_info_only 0
                           (init_StockService 0) (ustr ''600519''))))"
    by (simp add: demo_first_call) (simp add: demo_state_1_def init_StockService_def)
  have m: "0 \<le> MAX_CACHE_SIZE settings" by (simp add: settings_def)
  show ?thesis
    using cache_size_bounded [OF m, of demo_lib 0 "[(0, provider_info_only, (ustr ''600519''))]"] g m
    by blast
qed

subsection \<open>Well-formed reports\<close>

lemma report_try_name_source:
  assumes "report_try cfg lib w now s c = (Inr r, s')"
  shows "\<exists>info lru' cs. get_stock_info cfg w (info_lru s) c = (Inr info, lru', cs) \<and>
           dict_get info key_stock_name (PyStr []) = PyStr (name r)"
proof -
  obtain res lru1 c1 where gi: "get_stock_info cfg w (info_lru s) c = (res, lru1, c1)"
    by (metis prod_cases3)
  obtain r_f lru2 c2 where f: "get_fundamental_data cfg lib w lru1 c = (r_f, lru2, c2)"
    by (metis prod_cases3)
  obtain r_v lru3 c3 where v: "get_valuation_data cfg lib w lru2 c = (r_v, lru3, c3)"
    by (metis prod_cases3)
  obtain r_t c4 where t: "get_technical_data lib w c = (r_t, c4)"
    by (metis surj_pair)
  obtain r_s c5 where sn: "get_sentiment_data lib w c = (r_s, c5)"
    by (metis surj_pair)
  show ?thesis
  proof (cases res)
    case (Inl e)
    with assms gi show ?thesis by (simp add: report_try_def)
  next
    case (Inr info)
    with assms gi f v t sn show ?thesis
      by (auto simp: report_try_def new_StockReport_def validate_stock_code_def Let_def
               split: if_splits sum.splits pyval.splits)
  qed
qed

lemma set_update_subset: "set (AList.update k v al) \<subseteq> insert (k, v) (set al)"
  by (induction al) auto

lemma sweep_set: "set (cache (clear_expired_cache cfg now s)) \<subseteq> set (cache s)"
  by (auto simp: clear_expired_cache_def Let_def foldl_delete)

lemma cache_wf_lookup:
  assumes "cache_wf lib s" and "map_of (cache s) (get_cache_key c) = Some (r, t)"
  shows "code r = c \<and> report_wf lib r"
proof -
  have "(get_cache_key c, (r, t)) \<in> set (cache s)"
    using assms(2) by (rule map_of_SomeD)
  then have "get_cache_key c = get_cache_key (code r) \<and> report_wf lib r"
    using assms(1) by (force simp: cache_wf_def)
  then show ?thesis by (auto dest: get_cache_key_inj)
qed

lemma cache_wf_step:
  assumes "cache_wf lib s"
  shows "cache_wf lib (snd (get_full_stock_report cfg lib w now s c))"
proof (cases rule: get_full_cases [of cfg lib w now s c])
  case (hit r)
  then show ?thesis using assms by simp
next
  case miss
  let ?s' = "snd (get_full_stock_report cfg lib w now s c)"
  obtain res where f: "fetch_report cfg lib w now s c = (res, ?s')"
    using miss by (simp add: prod_eq_iff)
  have swf: "\<forall>p \<in> set (cache (clear_expired_cache cfg now s)).
               fst p = get_cache_key (code (fst (snd p))) \<and> report_wf lib (fst (snd p))"
    using assms sweep_set [of cfg now s] by (auto simp: cache_wf_def)
  show ?thesis
  proof (cases res)
    case (Inl e)
    then show ?thesis using fetch_report_state [OF f] swf by (simp add: cache_wf_def)
  next
    case (Inr r)
    have "code r = c \<and> length c = 6 \<and> isdigit lib c \<and> name r \<noteq> []"
      using report_try_code_name [OF fetch_report_Inr] f Inr by blast
    then have new: "get_cache_key c = get_cache_key (code r) \<and> report_wf lib r"
      by (simp add: report_wf_def)
    have "cache ?s' = cache (clear_expired_cache cfg now s) \<or>
          cache ?s' = AList.update (get_cache_key c) (r, now) (cache (clear_expired_cache cfg now s))"
      using fetch_report_state [OF f] Inr by (auto split: if_splits)
    then have "set (cache ?s') \<subseteq>
            insert (get_cache_key c, (r, now)) (set (cache (clear_expired_cache cfg now s)))"
      using set_update_subset [of "get_cache_key c" "(r, now)" "cache (clear_expired_cache cfg now s)"]
      by auto
    then show ?thesis using swf new by (auto simp: cache_wf_def)
  qed
qed

lemma cache_wf_run: "cache_wf lib s \<Longrightarrow> cache_wf lib (run_reports cfg lib s reqs)"
proof (induction reqs arbitrary: s)
  case Nil
  then show ?case by simp
next
  case (Cons q reqs)
  obtain now w c where q: "q = (now, w, c)" by (metis prod_cases3)
  show ?case using Cons.IH [OF cache_wf_step [OF Cons.prems]] by (simp add: q)
qed

text \<open>
  C10, the claim as the specification words it. The validator of the code takes
  \<open>len\<close> and \<open>str.isdigit\<close>, so it lets a ticker of six fullwidth digits through: the
  service returns a report for it, whose code is not six digits \<open>0\<close> to \<open>9\<close>, and
  stores the report in the cache.
\<close>

theorem returned_report_counterexample:
  "fst (get_full_stock_report settings demo_lib provider_info_only 0 (init_StockService 0)
          fullwidth_code) = Inr (demo_report fullwidth_code 0) \<and>
   validate_stock_code demo_lib fullwidth_code = Inr fullwidth_code \<and>
   code (demo_report fullwidth_code 0) = fullwidth_code \<and>
   \<not> spec_six_digits (code (demo_report fullwidth_code 0)) \<and>
   map_of (cache (snd (get_full_stock_report settings demo_lib provider_info_only 0
          (init_StockService 0) fullwidth_code))) (get_cache_key fullwidth_code) =
     Some (demo_report fullwidth_code 0, 0)"
  by (simp add: fullwidth_first_call fullwidth_code_facts validate_stock_code_def)
     (simp add: demo_report_def fullwidth_code_facts)

text \<open>
  C10, amended. Whatever requests a fresh service has served, a report it returns
  carries the requested ticker as its code; the code passes the validator of the
  model, that is, it has six characters and each of them is a digit for
  \<open>str.isdigit\<close> (\<open>0\<close> to \<open>9\<close>, but also the digits of other scripts and digit-like
  characters); and the name is not empty. When the report is built by this request
  (not taken from the cache), the name is the name entry of the basic information
  that \<open>_get_stock_info\<close> returned. The four sections are fields of the record, so
  they are always there.
\<close>

theorem returned_report_wellformed:
  assumes "get_full_stock_report cfg lib w now (run_reports cfg lib (init_StockService t0) reqs) c
             = (Inr r, s')"
  shows "code r = c \<and> validate_stock_code lib (code r) = Inr (code r) \<and>
         length (code r) = 6 \<and> isdigit lib (code r) \<and> name r \<noteq> [] \<and>
         (no_fresh_entry cfg now (run_reports cfg lib (init_StockService t0) reqs) c \<longrightarrow>
            (\<exists>info lru' cs.
               get_stock_info cfg w (info_lru (run_reports cfg lib (init_StockService t0) reqs)) c
                 = (Inr info, lru', cs) \<and>
               dict_get info key_stock_name (PyStr []) = PyStr (name r)))"
proof -
  let ?s = "run_reports cfg lib (init_StockService t0) reqs"
  have "cache_wf lib (init_StockService t0)"
    by (simp add: cache_wf_def init_StockService_def)
  then have wf: "cache_wf lib ?s" by (rule cache_wf_run)
  have main: "code r = c \<and> length (code r) = 6 \<and> isdigit lib (code r) \<and> name r \<noteq> []"
  proof (cases rule: get_full_cases [of cfg lib w now ?s c])
    case (hit r1)
    then have "r1 = r" using assms by simp
    then show ?thesis using hit cache_wf_lookup [OF wf] by (auto simp: report_wf_def)
  next
    case miss
    then have "fetch_report cfg lib w now ?s c = (Inr r, s')" using assms by simp
    then show ?thesis using report_try_code_name [OF fetch_report_Inr] by blast
  qed
  then have val: "validate_stock_code lib (code r) = Inr (code r)"
    by (auto simp: validate_stock_code_def)
  have src: "\<exists>info lru' cs. get_stock_info cfg w (info_lru ?s) c = (Inr info, lru', cs) \<and>
               dict_get info key_stock_name (PyStr []) = PyStr (name r)"
    if "no_fresh_entry cfg now ?s c"
  proof -
    have "fetch_report cfg lib w now ?s c = (Inr r, s')"
      using assms that by (simp add: get_full_miss)
    then show ?thesis using report_try_name_source [OF fetch_report_Inr] by simp
  qed
  show ?thesis using main val src by blast
qed

theorem returned_report_wellformed_witness:
  "get_full_stock_report settings demo_lib provider_info_only 0
      (run_reports settings demo_lib (init_StockService 0) []) (ustr ''600519'')
     = (Inr (demo_report (ustr ''600519'') 0), demo_state_1) \<and>
   no_fresh_entry settings 0 (run_reports settings demo_lib (init_StockService 0) []) (ustr ''600519'') \<and>
   code (demo_report (ustr ''600519'') 0) = ustr ''600519'' \<and>
   validate_stock_code demo_lib (code (demo_report (ustr ''600519'') 0)) =
     Inr (code (demo_report (ustr ''600519'') 0)) \<and>
   length (code (demo_report (ustr ''600519'') 0)) = 6 \<and>
   isdigit demo_lib (code (demo_report (ustr ''600519'') 0)) \<and>
   name (demo_report (ustr ''600519'') 0) \<noteq> [] \<and>
   (\<exists>info lru' cs.
      get_stock_info settings provider_info_only
        (info_lru (run_reports settings demo_lib (init_StockService 0) [])) (ustr ''600519'')
        = (Inr info, lru', cs) \<and>
      dict_get info key_stock_name (PyStr []) = PyStr (name (demo_report (ustr ''600519'') 0)))"
proof -
  have a: "get_full_stock_report settings demo_lib provider_info_only 0
      (run_reports settings demo_lib (init_StockService 0) []) (ustr ''600519'')
     = (Inr (demo_report (ustr ''600519'') 0), demo_state_1)"
    by (simp add: demo_first_call)
  have b: "no_fresh_entry settings 0 (run_reports settings demo_lib (init_StockService 0) []) (ustr ''600519'')"
    by (simp add: init_no_fresh)
  show ?thesis
    using returned_report_wellformed [OF a] a b by blast
qed

section \<open>Partial failure\<close>

lemma fundamental_try_raise:
  "fst (fundamental_try cfg lib w lru c) = Inl e \<Longrightarrow>
   fst (get_fundamental_data cfg lib w lru c) = Inr FundamentalAnalysis_default"
  by (auto simp: get_fundamental_data_def except_Exception_def split: prod.splits)

lemma technical_try_raise:
  "fst (technical_try lib w c) = Inl e \<Longrightarrow>
   fst (get_technical_data lib w c) = Inr TechnicalAnalysis_default"
  by (auto simp: get_technical_data_def except_Exception_def split: prod.splits)

lemma sentiment_try_raise:
  "fst (sentiment_try lib w c) = Inl e \<Longrightarrow>
   fst (get_sentiment_data lib w c) = Inr SentimentAnalysis_default"
  by (auto simp: get_sentiment_data_def except_Exception_def split: prod.splits)

lemma assign_floats_total: "snd (assign_floats lib ps d) = None"
proof (induction ps arbitrary: d)
  case Nil
  then show ?case by simp
next
  case (Cons p ps)
  obtain upd v where p: "p = (upd, v)" by (cases p)
  obtain x where "safe_get_float lib v None = Inr x"
    using safe_get_float_total by blast
  then show ?case using Cons.IH by (simp add: p)
qed

lemma valuation_try_total:
  assumes "fst (get_stock_info cfg w lru c) = Inr info"
  shows "\<exists>v. fst (valuation_try cfg lib w lru c) = Inr v"
proof -
  obtain lru' cs where g: "get_stock_info cfg w lru c = (Inr info, lru', cs)"
    using assms by (metis prod.collapse)
  obtain d where "assign_floats lib
             [(\<lambda>x d. d\<lparr>pe_ratio_static := x\<rparr>, dict_get info key_pe_static PyNone),
              (\<lambda>x d. d\<lparr>pe_ratio_dynamic := x\<rparr>, dict_get info key_pe_dynamic PyNone),
              (\<lambda>x d. d\<lparr>pe_ratio_ttm := x\<rparr>, dict_get info key_pe_ttm PyNone),
              (\<lambda>x d. d\<lparr>pb_ratio := x\<rparr>, dict_get info key_pb PyNone),
              (\<lambda>x d. d\<lparr>ps_ratio := x\<rparr>, dict_get info key_ps PyNone),
              (\<lambda>x d. d\<lparr>dividend_yield := x\<rparr>, dict_get info key_dividend_yield PyNone)]
             ValuationAnalysis_default = (d, None)"
    using assign_floats_total by (metis prod.collapse)
  then show ?thesis
    by (simp add: valuation_try_def g raise_or_return_def)
qed

lemma get_stock_info_again:
  assumes "get_stock_info cfg w lru c = (Inr info, lru1, cs1)"
  shows "fst (get_stock_info cfg w lru1 c) = Inr info \<and> fst (snd (get_stock_info cfg w lru1 c)) = lru1"
proof (cases "map_of lru c")
  case (Some d)
  then have "lru1 = (c, info) # AList.delete c lru"
    using assms by (auto simp: get_stock_info_def)
  then show ?thesis by (simp add: get_stock_info_front delete_notin_dom)
next
  case None
  then have u: "get_stock_info_uncached w c = Inr info"
    and l: "lru1 = take (nat (MAX_CACHE_SIZE cfg)) ((c, info) # lru)"
    using assms by (auto simp: get_stock_info_def split: sum.splits)
  have notin: "c \<notin> fst ` set lru" using None by (simp add: map_of_eq_None_iff)
  show ?thesis
  proof (cases "nat (MAX_CACHE_SIZE cfg)")
    case 0
    then show ?thesis using u l by (simp add: get_stock_info_def)
  next
    case (Suc k)
    have "c \<notin> fst ` set (take k lru)" using notin by (auto dest: in_set_takeD)
    then show ?thesis using l Suc by (simp add: get_stock_info_front)
  qed
qed

text \<open>
  C4, partial failure. For a ticker of six digits (six characters, digits for
  \<open>str.isdigit\<close>) whose name resolves, a request that is not served from the cache
  returns a report, and the endpoint, whose pattern has to match the ticker for the
  request to reach the service, answers 200 with this report. When the body of the
  fundamental, technical or sentiment fetch raises, that section is the model built
  with no argument. An exception of a provider call gives the same for the
  fundamental and the technical section; in the sentiment fetch the two provider
  calls have handlers of their own, and when both raise the section has every field
  \<open>None\<close> and the empty list of concept labels. The valuation fetch makes no provider
  call of its own and its body does not raise once the name has resolved. Each
  section depends on the provider only through the calls of its own fetch (and the
  basic information): a provider that differs in other calls gives the same
  section.
\<close>

theorem partial_failure_tolerated:
  assumes ticker: "length c = 6" "isdigit lib c"
    and miss: "no_fresh_entry cfg now s c"
    and info: "get_stock_info cfg w (info_lru s) c = (Inr info, lru1, cs1)"
    and nm: "dict_get info key_stock_name (PyStr []) = PyStr n" "n \<noteq> []"
  shows "\<exists>r. fst (get_full_stock_report cfg lib w now s c) = Inr r \<and>
           (query_regex lib c \<longrightarrow>
              fst (get_stock_full_report cfg lib w now s (Some c)) =
                \<lparr>status_code = 200, body = Some r\<rparr>) \<and>
           code r = c \<and> name r = n \<and>
           ((\<exists>e. fst (fundamental_try cfg lib w lru1 c) = Inl e) \<longrightarrow>
              fundamental_analysis r = FundamentalAnalysis_default) \<and>
           ((\<exists>e. fst (technical_try lib w c) = Inl e) \<longrightarrow>
              technical_analysis r = TechnicalAnalysis_default) \<and>
           ((\<exists>e. fst (sentiment_try lib w c) = Inl e) \<longrightarrow>
              sentiment_analysis r = SentimentAnalysis_default) \<and>
           (\<exists>v. fst (valuation_try cfg lib w lru1 c) = Inr v \<and> valuation_analysis r = v) \<and>
           ((\<exists>e. w (Stock_financial_analysis_indicator c) = Inl e) \<longrightarrow>
              fundamental_analysis r = FundamentalAnalysis_default) \<and>
           ((\<exists>e. w Stock_zh_a_spot_em = Inl e) \<or> (\<exists>e. w (Stock_zh_a_hist c) = Inl e) \<longrightarrow>
              technical_analysis r = TechnicalAnalysis_default) \<and>
           ((\<exists>e. w (Stock_individual_fund_flow c (fund_flow_market c)) = Inl e) \<and>
            (\<exists>e. w (Stock_board_concept_cons_em key_eastmoney) = Inl e) \<longrightarrow>
              sentiment_analysis r = SentimentAnalysis_default\<lparr>concept_labels := Some []\<rparr>) \<and>
           (\<forall>w'. w' (Stock_individual_info_em c) = w (Stock_individual_info_em c) \<longrightarrow>
              (\<exists>r'. fst (get_full_stock_report cfg lib w' now s c) = Inr r' \<and>
                 (w' (Stock_financial_analysis_indicator c) = w (Stock_financial_analysis_indicator c) \<longrightarrow>
                    fundamental_analysis r' = fundamental_analysis r) \<and>
                 valuation_analysis r' = valuation_analysis r \<and>
                 (w' Stock_zh_a_spot_em = w Stock_zh_a_spot_em \<and>
                  w' (Stock_zh_a_hist c) = w (Stock_zh_a_hist c) \<longrightarrow>
                    technical_analysis r' = technical_analysis r) \<and>
                 (w' (Stock_individual_fund_flow c (fund_flow_market c)) =
                    w (Stock_individual_fund_flow c (fund_flow_market c)) \<and>
                  w' (Stock_board_concept_cons_em key_eastmoney) =
                    w (Stock_board_concept_cons_em key_eastmoney) \<longrightarrow>
                    sentiment_analysis r' = sentiment_analysis r)))"
proof -
  let ?sw = "clear_expired_cache cfg now s"
  define R where "R w = \<lparr>code = c, name = n, update_time = now,
          fundamental_analysis =
            gathered (fst (get_fundamental_data cfg lib w lru1 c)) FundamentalAnalysis_default,
          valuation_analysis =
            gathered (fst (get_valuation_data cfg lib w
                        (fst (snd (get_fundamental_data cfg lib w lru1 c))) c)) ValuationAnalysis_default,
          technical_analysis = gathered (fst (get_technical_data lib w c)) TechnicalAnalysis_default,
          sentiment_analysis = gathered (fst (get_sentiment_data lib w c)) SentimentAnalysis_default\<rparr>"
    for w
  have full: "fst (get_full_stock_report cfg lib w' now s c) = Inr (R w')"
    if "w' (Stock_individual_info_em c) = w (Stock_individual_info_em c)" for w'
  proof -
    have "get_stock_info cfg w' (info_lru ?sw) c = (Inr info, lru1, cs1)"
      using info get_stock_info_cong [where w' = w' and w = w and c = c, OF that] by simp
    then have "fst (report_try cfg lib w' now ?sw c) = Inr (R w')"
      unfolding R_def using nm ticker by (rule report_try_Inr)
    then show ?thesis by (simp add: get_full_miss [OF miss] fetch_report_fst)
  qed
  have r: "fst (get_full_stock_report cfg lib w now s c) = Inr (R w)"
    by (rule full) simp
  have ep: "query_regex lib c \<longrightarrow>
              fst (get_stock_full_report cfg lib w now s (Some c)) =
                \<lparr>status_code = 200, body = Some (R w)\<rparr>"
    using ticker by (simp add: endpoint_valid r)
  have bf: "fundamental_analysis (R w) = FundamentalAnalysis_default"
    if "\<exists>e. fst (fundamental_try cfg lib w lru1 c) = Inl e"
    using that by (auto simp: R_def fundamental_try_raise gathered_def)
  have bt: "technical_analysis (R w) = TechnicalAnalysis_default"
    if "\<exists>e. fst (technical_try lib w c) = Inl e"
    using that by (auto simp: R_def technical_try_raise gathered_def)
  have bs: "sentiment_analysis (R w) = SentimentAnalysis_default"
    if "\<exists>e. fst (sentiment_try lib w c) = Inl e"
    using that by (auto simp: R_def sentiment_try_raise gathered_def)
  have f: "fundamental_analysis (R w) = FundamentalAnalysis_default"
    if "\<exists>e. w (Stock_financial_analysis_indicator c) = Inl e"
    using that by (auto simp: R_def fundamental_raise gathered_def)
  have t: "technical_analysis (R w) = TechnicalAnalysis_default"
    if "(\<exists>e. w Stock_zh_a_spot_em = Inl e) \<or> (\<exists>e. w (Stock_zh_a_hist c) = Inl e)"
    using technical_raise [OF that] by (simp add: R_def gathered_def)
  have sn: "sentiment_analysis (R w) = SentimentAnalysis_default\<lparr>concept_labels := Some []\<rparr>"
    if "(\<exists>e. w (Stock_individual_fund_flow c (fund_flow_market c)) = Inl e) \<and>
        (\<exists>e. w (Stock_board_concept_cons_em key_eastmoney) = Inl e)"
    using that by (auto simp: R_def sentiment_raise gathered_def)
  have other: "\<exists>r'. fst (get_full_stock_report cfg lib w' now s c) = Inr r' \<and>
                 (w' (Stock_financial_analysis_indicator c) = w (Stock_financial_analysis_indicator c) \<longrightarrow>
                    fundamental_analysis r' = fundamental_analysis (R w)) \<and>
                 valuation_analysis r' = valuation_analysis (R w) \<and>
                 (w' Stock_zh_a_spot_em = w Stock_zh_a_spot_em \<and>
                  w' (Stock_zh_a_hist c) = w (Stock_zh_a_hist c) \<longrightarrow>
                    technical_analysis r' = technical_analysis (R w)) \<and>
                 (w' (Stock_individual_fund_flow c (fund_flow_market c)) =
                    w (Stock_individual_fund_flow c (fund_flow_market c)) \<and>
                  w' (Stock_board_concept_cons_em key_eastmoney) =
                    w (Stock_board_concept_cons_em key_eastmoney) \<longrightarrow>
                    sentiment_analysis r' = sentiment_analysis (R w))"
    if i: "w' (Stock_individual_info_em c) = w (Stock_individual_info_em c)" for w'
  proof -
    have lru: "fst (snd (get_fundamental_data cfg lib w' lru1 c)) =
               fst (snd (get_fundamental_data cfg lib w lru1 c))"
      by (simp add: fundamental_lru get_stock_info_cong [where w' = w' and w = w and c = c, OF i])
    have v: "valuation_analysis (R w') = valuation_analysis (R w)"
      by (simp add: R_def lru valuation_cong [where w' = w' and w = w and c = c, OF i])
    have f': "fundamental_analysis (R w') = fundamental_analysis (R w)"
      if "w' (Stock_financial_analysis_indicator c) = w (Stock_financial_analysis_indicator c)"
      by (simp add: R_def fundamental_cong [where w' = w' and w = w and c = c, OF i that])
    have t': "technical_analysis (R w') = technical_analysis (R w)"
      if "w' Stock_zh_a_spot_em = w Stock_zh_a_spot_em \<and> w' (Stock_zh_a_hist c) = w (Stock_zh_a_hist c)"
      using that by (simp add: R_def technical_cong [where w' = w' and w = w and c = c])
    have s': "sentiment_analysis (R w') = sentiment_analysis (R w)"
      if "w' (Stock_individual_fund_flow c (fund_flow_market c)) =
            w (Stock_individual_fund_flow c (fund_flow_market c)) \<and>
          w' (Stock_board_concept_cons_em key_eastmoney) = w (Stock_board_concept_cons_em key_eastmoney)"
      using that by (simp add: R_def sentiment_cong [where w' = w' and w = w and c = c])
    show ?thesis using full [where w' = w', OF i] v f' t' s' by blast
  qed
  have cn: "code (R w) = c \<and> name (R w) = n" by (simp add: R_def)
  have va: "\<exists>v. fst (valuation_try cfg lib w lru1 c) = Inr v \<and> valuation_analysis (R w) = v"
  proof -
    have again: "fst (get_stock_info cfg w lru1 c) = Inr info"
      "fst (snd (get_stock_info cfg w lru1 c)) = lru1"
      using get_stock_info_again [OF info] by simp_all
    obtain v where v: "fst (valuation_try cfg lib w lru1 c) = Inr v"
      using valuation_try_total [OF again(1)] by blast
    have "fst (get_valuation_data cfg lib w lru1 c) = Inr v"
      using v by (auto simp: get_valuation_data_def except_Exception_def split: prod.splits)
    then have "valuation_analysis (R w) = v"
      by (simp add: R_def fundamental_lru again(2) gathered_def)
    with v show ?thesis by blast
  qed
  show ?thesis
    using r ep cn bf bt bs va f t sn other by blast
qed

lemma demo_dict_name: "dict_get demo_dict key_stock_name (PyStr []) = PyStr (ustr ''Moutai'')"
  by (simp add: dict_get_def demo_dict_def)

lemma init_get_stock_info:
  "get_stock_info settings provider_info_only (info_lru (init_StockService 0)) (ustr ''600519'') =
     (Inr demo_dict, [(ustr ''600519'', demo_dict)], [Stock_individual_info_em (ustr ''600519'')])"
  by (simp add: init_StockService_def info_only_get_stock_info_miss settings_def)

theorem partial_failure_tolerated_witness:
  "length (ustr ''600519'') = 6 \<and> isdigit demo_lib (ustr ''600519'') \<and>
   query_regex demo_lib (ustr ''600519'') \<and>
   no_fresh_entry settings 0 (init_StockService 0) (ustr ''600519'') \<and>
   get_stock_info settings provider_info_only (info_lru (init_StockService 0)) (ustr ''600519'') =
     (Inr demo_dict, [(ustr ''600519'', demo_dict)], [Stock_individual_info_em (ustr ''600519'')]) \<and>
   dict_get demo_dict key_stock_name (PyStr []) = PyStr (ustr ''Moutai'') \<and> ustr ''Moutai'' \<noteq> [] \<and>
   fst (get_full_stock_report settings demo_lib provider_info_only 0 (init_StockService 0) (ustr ''600519'')) =
     Inr (demo_report (ustr ''600519'') 0) \<and>
   fst (get_stock_full_report settings demo_lib provider_info_only 0 (init_StockService 0)
          (Some (ustr ''600519''))) = \<lparr>status_code = 200, body = Some (demo_report (ustr ''600519'') 0)\<rparr> \<and>
   fst (fundamental_try settings demo_lib provider_info_only [(ustr ''600519'', demo_dict)] (ustr ''600519'')) =
     Inl ProviderError \<and>
   fst (technical_try demo_lib provider_info_only (ustr ''600519'')) = Inl ProviderError \<and>
   get_stock_info settings provider_bad_labels (info_lru (init_StockService 0)) (ustr ''600519'') =
     (Inr demo_dict, [(ustr ''600519'', demo_dict)], [Stock_individual_info_em (ustr ''600519'')]) \<and>
   fst (sentiment_try demo_lib provider_bad_labels (ustr ''600519'')) = Inl ValidationError \<and>
   sentiment_analysis (projr (fst (get_full_stock_report settings demo_lib provider_bad_labels 0
       (init_StockService 0) (ustr ''600519'')))) = SentimentAnalysis_default \<and>
   provider_info_only (Stock_financial_analysis_indicator (ustr ''600519'')) = Inl ProviderError \<and>
   fundamental_analysis (demo_report (ustr ''600519'') 0) = FundamentalAnalysis_default \<and>
   provider_info_only Stock_zh_a_spot_em = Inl ProviderError \<and>
   technical_analysis (demo_report (ustr ''600519'') 0) = TechnicalAnalysis_default \<and>
   provider_info_only (Stock_individual_fund_flow (ustr ''600519'') (fund_flow_market (ustr ''600519''))) =
     Inl ProviderError \<and>
   provider_info_only (Stock_board_concept_cons_em key_eastmoney) = Inl ProviderError \<and>
   sentiment_analysis (demo_report (ustr ''600519'') 0) =
     SentimentAnalysis_default\<lparr>concept_labels := Some []\<rparr> \<and>
   provider_with_flow (Stock_individual_info_em (ustr ''600519'')) =
     provider_info_only (Stock_individual_info_em (ustr ''600519'')) \<and>
   provider_with_flow (Stock_financial_analysis_indicator (ustr ''600519'')) =
     provider_info_only (Stock_financial_analysis_indicator (ustr ''600519'')) \<and>
   provider_with_flow Stock_zh_a_spot_em = provider_info_only Stock_zh_a_spot_em \<and>
   provider_with_flow (Stock_zh_a_hist (ustr ''600519'')) = provider_info_only (Stock_zh_a_hist (ustr ''600519'')) \<and>
   fundamental_analysis (projr (fst (get_full_stock_report settings demo_lib provider_with_flow 0
       (init_StockService 0) (ustr ''600519'')))) = FundamentalAnalysis_default \<and>
   valuation_analysis (projr (fst (get_full_stock_report settings demo_lib provider_with_flow 0
       (init_StockService 0) (ustr ''600519'')))) = ValuationAnalysis_default \<and>
   technical_analysis (projr (fst (get_full_stock_report settings demo_lib provider_with_flow 0
       (init_StockService 0) (ustr ''600519'')))) = TechnicalAnalysis_default \<and>
   provider_with_financials (Stock_individual_info_em (ustr ''600519'')) =
     provider_info_only (Stock_individual_info_em (ustr ''600519'')) \<and>
   provider_with_financials (Stock_individual_fund_flow (ustr ''600519'') (fund_flow_market (ustr ''600519''))) =
     provider_info_only (Stock_individual_fund_flow (ustr ''600519'') (fund_flow_market (ustr ''600519''))) \<and>
   provider_with_financials (Stock_board_concept_cons_em key_eastmoney) =
     provider_info_only (Stock_board_concept_cons_em key_eastmoney) \<and>
   sentiment_analysis (projr (fst (get_full_stock_report settings demo_lib provider_with_financials 0
       (init_StockService 0) (ustr ''600519'')))) = SentimentAnalysis_default\<lparr>concept_labels := Some []\<rparr>"
proof -
  have p: "provider_info_only (Stock_financial_analysis_indicator (ustr ''600519'')) = Inl ProviderError"
    "provider_info_only Stock_zh_a_spot_em = Inl ProviderError"
    "provider_info_only (Stock_individual_fund_flow (ustr ''600519'') (fund_flow_market (ustr ''600519''))) =
       Inl ProviderError"
    "provider_info_only (Stock_board_concept_cons_em key_eastmoney) = Inl ProviderError"
    by (simp_all add: provider_info_only_def)
  have q: "provider_with_flow (Stock_individual_info_em (ustr ''600519'')) =
             provider_info_only (Stock_individual_info_em (ustr ''600519''))"
    "provider_with_flow (Stock_financial_analysis_indicator (ustr ''600519'')) =
       provider_info_only (Stock_financial_analysis_indicator (ustr ''600519''))"
    "provider_with_flow Stock_zh_a_spot_em = provider_info_only Stock_zh_a_spot_em"
    "provider_with_flow (Stock_zh_a_hist (ustr ''600519'')) = provider_info_only (Stock_zh_a_hist (ustr ''600519''))"
    by (simp_all add: provider_with_flow_def provider_info_only_def)
  have q2: "provider_with_financials (Stock_individual_info_em (ustr ''600519'')) =
              provider_info_only (Stock_individual_info_em (ustr ''600519''))"
    "provider_with_financials (Stock_individual_fund_flow (ustr ''600519'') (fund_flow_market (ustr ''600519''))) =
       provider_info_only (Stock_individual_fund_flow (ustr ''600519'') (fund_flow_market (ustr ''600519'')))"
    "provider_with_financials (Stock_board_concept_cons_em key_eastmoney) =
       provider_info_only (Stock_board_concept_cons_em key_eastmoney)"
    by (simp_all add: provider_with_financials_def provider_info_only_def)
  have d: "fst (get_full_stock_report settings demo_lib provider_info_only 0 (init_StockService 0)
                  (ustr ''600519'')) = Inr (demo_report (ustr ''600519'') 0)"
    by (simp add: demo_first_call)
  have sec: "fundamental_analysis (demo_report (ustr ''600519'') 0) = FundamentalAnalysis_default"
    "valuation_analysis (demo_report (ustr ''600519'') 0) = ValuationAnalysis_default"
    "technical_analysis (demo_report (ustr ''600519'') 0) = TechnicalAnalysis_default"
    "sentiment_analysis (demo_report (ustr ''600519'') 0) = SentimentAnalysis_default\<lparr>concept_labels := Some []\<rparr>"
    by (simp_all add: demo_report_def)
  have ne: "ustr ''Moutai'' \<noteq> []" by simp
  note inst = partial_failure_tolerated [where cfg = settings and lib = demo_lib
      and w = provider_info_only and now = 0 and s = "init_StockService 0" and c = "ustr ''600519''"
      and info = demo_dict and ?lru1.0 = "[(ustr ''600519'', demo_dict)]"
      and ?cs1.0 = "[Stock_individual_info_em (ustr ''600519'')]" and n = "ustr ''Moutai''",
      OF isdigit_600519' [THEN conjunct1] isdigit_600519 init_no_fresh init_get_stock_info demo_dict_name ne]
  from inst obtain r where r0: "fst (get_full_stock_report settings demo_lib provider_info_only 0
        (init_StockService 0) (ustr ''600519'')) = Inr r"
    and ep0: "query_regex demo_lib (ustr ''600519'') \<longrightarrow>
          fst (get_stock_full_report settings demo_lib provider_info_only 0 (init_StockService 0)
          (Some (ustr ''600519''))) = \<lparr>status_code = 200, body = Some r\<rparr>"
    and ot: "\<forall>w'. w' (Stock_individual_info_em (ustr ''600519'')) =
                 provider_info_only (Stock_individual_info_em (ustr ''600519'')) \<longrightarrow>
              (\<exists>r'. fst (get_full_stock_report settings demo_lib w' 0 (init_StockService 0) (ustr ''600519''))
                      = Inr r' \<and>
                 (w' (Stock_financial_analysis_indicator (ustr ''600519'')) =
                    provider_info_only (Stock_financial_analysis_indicator (ustr ''600519'')) \<longrightarrow>
                    fundamental_analysis r' = fundamental_analysis r) \<and>
                 valuation_analysis r' = valuation_analysis r \<and>
                 (w' Stock_zh_a_spot_em = provider_info_only Stock_zh_a_spot_em \<and>
                  w' (Stock_zh_a_hist (ustr ''600519'')) = provider_info_only (Stock_zh_a_hist (ustr ''600519'')) \<longrightarrow>
                    technical_analysis r' = technical_analysis r) \<and>
                 (w' (Stock_individual_fund_flow (ustr ''600519'') (fund_flow_market (ustr ''600519''))) =
                    provider_info_only (Stock_individual_fund_flow (ustr ''600519'') (fund_flow_market (ustr ''600519''))) \<and>
                  w' (Stock_board_concept_cons_em key_eastmoney) =
                    provider_info_only (Stock_board_concept_cons_em key_eastmoney) \<longrightarrow>
                    sentiment_analysis r' = sentiment_analysis r))"
    by blast
  have r: "r = demo_report (ustr ''600519'') 0" using r0 d by simp
  note ep = ep0 [rule_format, OF query_regex_600519]
  from ot [rule_format, of provider_with_flow, OF q(1)] obtain r' where
    "fst (get_full_stock_report settings demo_lib provider_with_flow 0 (init_StockService 0) (ustr ''600519''))
       = Inr r'"
    and "fundamental_analysis r' = fundamental_analysis r"
    and "valuation_analysis r' = valuation_analysis r"
    and "technical_analysis r' = technical_analysis r"
    using q by blast
  with r sec
  have a: "fundamental_analysis (projr (fst (get_full_stock_report settings demo_lib provider_with_flow 0
       (init_StockService 0) (ustr ''600519'')))) = FundamentalAnalysis_default \<and>
   valuation_analysis (projr (fst (get_full_stock_report settings demo_lib provider_with_flow 0
       (init_StockService 0) (ustr ''600519'')))) = ValuationAnalysis_default \<and>
   technical_analysis (projr (fst (get_full_stock_report settings demo_lib provider_with_flow 0
       (init_StockService 0) (ustr ''600519'')))) = TechnicalAnalysis_default"
    by simp
  from ot [rule_format, of provider_with_financials, OF q2(1)] obtain r'' where
    "fst (get_full_stock_report settings demo_lib provider_with_financials 0 (init_StockService 0)
       (ustr ''600519'')) = Inr r''"
    and "sentiment_analysis r'' = sentiment_analysis r"
    using q2 by blast
  with r sec
  have b: "sentiment_analysis (projr (fst (get_full_stock_report settings demo_lib
       provider_with_financials 0 (init_StockService 0) (ustr ''600519'')))) =
       SentimentAnalysis_default\<lparr>concept_labels := Some []\<rparr>"
    by simp
  have bf: "fst (fundamental_try settings demo_lib provider_info_only [(ustr ''600519'', demo_dict)]
                   (ustr ''600519'')) = Inl ProviderError"
    by (simp add: fundamental_try_def get_stock_info_front provider_info_only_def)
  have bt: "fst (technical_try demo_lib provider_info_only (ustr ''600519'')) = Inl ProviderError"
    by (simp add: technical_try_def provider_info_only_def)
  have gi2: "get_stock_info settings provider_bad_labels (info_lru (init_StockService 0)) (ustr ''600519'') =
     (Inr demo_dict, [(ustr ''600519'', demo_dict)], [Stock_individual_info_em (ustr ''600519'')])"
    using init_get_stock_info
      get_stock_info_cong [where w' = provider_bad_labels and w = provider_info_only
        and c = "ustr ''600519''" and cfg = settings and lru = "info_lru (init_StockService 0)"]
    by (simp add: provider_bad_labels_def provider_info_only_def)
  have bs: "fst (sentiment_try demo_lib provider_bad_labels (ustr ''600519'')) = Inl ValidationError"
    by (simp add: sentiment_try_def sentiment_concepts_def provider_bad_labels_def labels_table_def
        df_empty_def df_where_eq_def df_column_def series_get_def bindE_def validate_str_list_def
        key_code_def key_board_name_def)
  note inst2 = partial_failure_tolerated [where cfg = settings and lib = demo_lib
      and w = provider_bad_labels and now = 0 and s = "init_StockService 0" and c = "ustr ''600519''"
      and info = demo_dict and ?lru1.0 = "[(ustr ''600519'', demo_dict)]"
      and ?cs1.0 = "[Stock_individual_info_em (ustr ''600519'')]" and n = "ustr ''Moutai''",
      OF isdigit_600519' [THEN conjunct1] isdigit_600519 init_no_fresh gi2 demo_dict_name ne]
  from inst2 obtain r2 where "fst (get_full_stock_report settings demo_lib provider_bad_labels 0
        (init_StockService 0) (ustr ''600519'')) = Inr r2"
    and "(\<exists>e. fst (sentiment_try demo_lib provider_bad_labels (ustr ''600519'')) = Inl e) \<longrightarrow>
           sentiment_analysis r2 = SentimentAnalysis_default"
    by blast
  with bs
  have c: "sentiment_analysis (projr (fst (get_full_stock_report settings demo_lib provider_bad_labels 0
       (init_StockService 0) (ustr ''600519'')))) = SentimentAnalysis_default"
    by simp
  show ?thesis
    using isdigit_600519' query_regex_600519 init_no_fresh [of settings 0 0 "ustr ''600519''"]
      init_get_stock_info demo_dict_name d ep r p q q2 sec a b bf bt gi2 bs c
    by simp
qed

section \<open>Failure of the name resolution\<close>

lemma get_stock_info_provider_raises:
  "map_of lru c = None \<Longrightarrow> w (Stock_individual_info_em c) = Inl e \<Longrightarrow>
   get_stock_info cfg w lru c = (Inl StockDataError, lru, [Stock_individual_info_em c])"
  by (simp add: get_stock_info_def get_stock_info_uncached_def get_stock_info_body_def bindE_def)


text \<open>
  C5, amended. When a request is not served from the cache and the lookup of the basic
  information does not succeed, no report is returned. The error is
  \<open>StockDataError\<close> when the provider call raises, and \<open>StockNotFoundError\<close> when the
  basic information has no name or an empty one.
\<close>

theorem failed_lookup_no_report:
  assumes miss: "no_fresh_entry cfg now s c"
  shows "(\<forall>e lru' cs. get_stock_info cfg w (info_lru s) c = (Inl e, lru', cs) \<longrightarrow>
            isl (fst (get_full_stock_report cfg lib w now s c))) \<and>
         (\<forall>e. map_of (info_lru s) c = None \<and> w (Stock_individual_info_em c) = Inl e \<longrightarrow>
            fst (get_full_stock_report cfg lib w now s c) = Inl StockDataError) \<and>
         (\<forall>info lru' cs. get_stock_info cfg w (info_lru s) c = (Inr info, lru', cs) \<and>
              \<not> truthy (dict_get info key_stock_name (PyStr [])) \<longrightarrow>
            fst (get_full_stock_report cfg lib w now s c) = Inl StockNotFoundError)"
proof -
  let ?sw = "clear_expired_cache cfg now s"
  have full: "fst (get_full_stock_report cfg lib w now s c) =
        (case fst (report_try cfg lib w now ?sw c) of
           Inl e \<Rightarrow> Inl (report_except e) | Inr r \<Rightarrow> Inr r)"
    by (simp add: get_full_miss [OF miss] fetch_report_fst)
  have a: "isl (fst (get_full_stock_report cfg lib w now s c))"
    if "get_stock_info cfg w (info_lru s) c = (Inl e, lru', cs)" for e lru' cs
  proof -
    have "fst (report_try cfg lib w now ?sw c) = Inl e"
    proof (rule report_try_info_raises [where ?lru1.0 = lru' and ?c1.0 = cs])
      show "get_stock_info cfg w (info_lru ?sw) c = (Inl e, lru', cs)"
        using that by simp
    qed
    then show ?thesis by (simp add: full)
  qed
  have b: "fst (get_full_stock_report cfg lib w now s c) = Inl StockDataError"
    if "map_of (info_lru s) c = None \<and> w (Stock_individual_info_em c) = Inl e" for e
  proof -
    have "get_stock_info cfg w (info_lru ?sw) c =
            (Inl StockDataError, info_lru s, [Stock_individual_info_em c])"
      using that by (simp add: get_stock_info_provider_raises)
    then have "fst (report_try cfg lib w now ?sw c) = Inl StockDataError"
      by (rule report_try_info_raises)
    then show ?thesis by (simp add: full report_except_def)
  qed
  have c: "fst (get_full_stock_report cfg lib w now s c) = Inl StockNotFoundError"
    if "get_stock_info cfg w (info_lru s) c = (Inr info, lru', cs) \<and>
        \<not> truthy (dict_get info key_stock_name (PyStr []))" for info lru' cs
  proof -
    have "fst (report_try cfg lib w now ?sw c) = Inl StockNotFoundError"
    proof (rule report_try_no_name [where ?lru1.0 = lru' and ?c1.0 = cs])
      show "get_stock_info cfg w (info_lru ?sw) c = (Inr info, lru', cs)"
        using that by simp
      show "\<not> truthy (dict_get info key_stock_name (PyStr []))"
        using that by simp
    qed
    then show ?thesis by (simp add: full report_except_def)
  qed
  show ?thesis using a b c by blast
qed

text \<open>
  C5 as stated fails when the provider is down: the request fails with
  \<open>StockDataError\<close> (500), not with a not-found error.
\<close>

theorem failed_lookup_counterexample:
  "fst (get_full_stock_report settings demo_lib provider_down 0 (init_StockService 0) (ustr ''600519'')) =
     Inl StockDataError \<and>
   status_code (fst (get_stock_full_report settings demo_lib provider_down 0 (init_StockService 0)
      (Some (ustr ''600519'')))) = 500"
proof -
  have "get_stock_info settings provider_down (info_lru (clear_expired_cache settings 0 (init_StockService 0)))
          (ustr ''600519'') = (Inl StockDataError, [], [Stock_individual_info_em (ustr ''600519'')])"
    by (simp add: get_stock_info_provider_raises [where e = ProviderError] provider_down_def
        init_StockService_def)
  then have "fst (report_try settings demo_lib provider_down 0
                    (clear_expired_cache settings 0 (init_StockService 0)) (ustr ''600519'')) = Inl StockDataError"
    by (rule report_try_info_raises)
  then have "fst (get_full_stock_report settings demo_lib provider_down 0 (init_StockService 0) (ustr ''600519''))
               = Inl StockDataError"
    by (simp add: get_full_miss init_no_fresh fetch_report_fst report_except_def)
  then show ?thesis using query_regex_600519 by (simp add: endpoint_500)
qed

lemma nameless_get_stock_info:
  "get_stock_info settings provider_nameless (info_lru (init_StockService 0)) (ustr ''600519'') =
     (Inr [(PyStr key_total_market_cap, PyStr (ustr ''12.5''))],
      [(ustr ''600519'', [(PyStr key_total_market_cap, PyStr (ustr ''12.5''))])],
      [Stock_individual_info_em (ustr ''600519'')])"
  by (simp add: get_stock_info_def get_stock_info_uncached_def get_stock_info_body_def
      provider_nameless_def nameless_info_def df_empty_def bindE_def series_item_def
      init_StockService_def settings_def)

lemma nameless_falsy:
  "\<not> truthy (dict_get [(PyStr key_total_market_cap, PyStr (ustr ''12.5''))] key_stock_name (PyStr []))"
  by (simp add: dict_get_def key_total_market_cap_def key_stock_name_def)

theorem failed_lookup_no_report_witness:
  "no_fresh_entry settings 0 (init_StockService 0) (ustr ''600519'') \<and>
   get_stock_info settings provider_unknown (info_lru (init_StockService 0)) (ustr ''600519'') =
     (Inl StockDataError, [], [Stock_individual_info_em (ustr ''600519'')]) \<and>
   isl (fst (get_full_stock_report settings demo_lib provider_unknown 0 (init_StockService 0) (ustr ''600519''))) \<and>
   map_of (info_lru (init_StockService 0)) (ustr ''600519'') = None \<and>
   provider_down (Stock_individual_info_em (ustr ''600519'')) = Inl ProviderError \<and>
   fst (get_full_stock_report settings demo_lib provider_down 0 (init_StockService 0) (ustr ''600519'')) =
     Inl StockDataError \<and>
   get_stock_info settings provider_nameless (info_lru (init_StockService 0)) (ustr ''600519'') =
     (Inr [(PyStr key_total_market_cap, PyStr (ustr ''12.5''))],
      [(ustr ''600519'', [(PyStr key_total_market_cap, PyStr (ustr ''12.5''))])],
      [Stock_individual_info_em (ustr ''600519'')]) \<and>
   \<not> truthy (dict_get [(PyStr key_total_market_cap, PyStr (ustr ''12.5''))] key_stock_name (PyStr [])) \<and>
   fst (get_full_stock_report settings demo_lib provider_nameless 0 (init_StockService 0) (ustr ''600519'')) =
     Inl StockNotFoundError"
proof -
  have l: "map_of (info_lru (init_StockService 0)) (ustr ''600519'') = None"
    by (simp add: init_StockService_def)
  have u: "get_stock_info settings provider_unknown (info_lru (init_StockService 0)) (ustr ''600519'') =
     (Inl StockDataError, [], [Stock_individual_info_em (ustr ''600519'')])"
    using get_stock_info_empty [OF l, where w = provider_unknown and df = empty_info and cfg = settings]
    by (simp add: provider_unknown_def empty_info_def df_empty_def init_StockService_def)
  have d: "provider_down (Stock_individual_info_em (ustr ''600519'')) = Inl ProviderError"
    by (simp add: provider_down_def)
  note m = init_no_fresh [of settings 0 0 "ustr ''600519''"]
  have a: "isl (fst (get_full_stock_report settings demo_lib provider_unknown 0 (init_StockService 0)
                        (ustr ''600519'')))"
    using failed_lookup_no_report [OF m, where w = provider_unknown and lib = demo_lib,
        THEN conjunct1, rule_format, OF u] .
  have b: "fst (get_full_stock_report settings demo_lib provider_down 0 (init_StockService 0) (ustr ''600519''))
             = Inl StockDataError"
    using failed_lookup_no_report [OF m, where w = provider_down and lib = demo_lib,
        THEN conjunct2, THEN conjunct1, rule_format, OF conjI [OF l d]] .
  have c: "fst (get_full_stock_report settings demo_lib provider_nameless 0 (init_StockService 0)
                  (ustr ''600519'')) = Inl StockNotFoundError"
    using failed_lookup_no_report [OF m, where w = provider_nameless and lib = demo_lib,
        THEN conjunct2, THEN conjunct2, rule_format, OF conjI [OF nameless_get_stock_info nameless_falsy]] .
  show ?thesis
    using m l u d nameless_get_stock_info nameless_falsy a b c by simp
qed

end
